theory Spec2Isabelle
  imports Main
begin

section \<open>A development HTTPS file server: serve.py and the library code it runs\<close>

text \<open>
  The script \<^verbatim>\<open>serve.py\<close> is thirty lines: it fixes a port and three paths, changes
  into the directory of the script, adds six entries to the MIME table of
  \<^verbatim>\<open>http.server.SimpleHTTPRequestHandler\<close>, builds an \<^verbatim>\<open>HTTPServer\<close> on
  \<^verbatim>\<open>('localhost', PORT)\<close>, wraps its socket in TLS and calls \<^verbatim>\<open>serve_forever\<close>.
  What the running program does with a request is decided by the handler class of the
  Python standard library, which the script uses unchanged. The definitions below embed
  the script statement by statement, and the library functions it reaches
  (\<^verbatim>\<open>posixpath\<close>, \<^verbatim>\<open>SimpleHTTPRequestHandler\<close>, \<^verbatim>\<open>mimetypes.guess_type\<close>) from the
  sources of CPython 3.11 (\<^verbatim>\<open>Lib/posixpath.py\<close>, \<^verbatim>\<open>Lib/genericpath.py\<close>,
  \<^verbatim>\<open>Lib/http/server.py\<close>, \<^verbatim>\<open>Lib/mimetypes.py\<close>, \<^verbatim>\<open>Lib/socketserver.py\<close>), function
  by function and under the library's names.

  A Python \<^verbatim>\<open>str\<close> is a \<^typ>\<open>string\<close>, one \<^typ>\<open>char\<close> per character. The request line
  is decoded as ISO-8859-1 by the library, so the request path is exactly such a string.
  Characters above 255 can only come out of percent escapes; how those are decoded is a
  parameter of the model, and the methods of \<^verbatim>\<open>str\<close> below are those of Python on the
  characters up to 255.
\<close>

subsection \<open>Methods of str\<close>

text \<open>\<^verbatim>\<open>s.startswith(p)\<close> and \<^verbatim>\<open>s.endswith(p)\<close>.\<close>

definition startswith :: "string \<Rightarrow> string \<Rightarrow> bool" where
  "startswith s p = (take (length p) s = p)"

definition endswith :: "string \<Rightarrow> string \<Rightarrow> bool" where
  "endswith s p = (length p \<le> length s \<and> drop (length s - length p) s = p)"

text \<open>\<^verbatim>\<open>s.split(c)\<close> for a one-character separator: never empty, \<^verbatim>\<open>''.split('/') == ['']\<close>.\<close>

fun str_split :: "char \<Rightarrow> string \<Rightarrow> string list" where
  "str_split c [] = [[]]"
| "str_split c (x # xs) =
     (if x = c then [] # str_split c xs
      else (case str_split c xs of
              [] \<Rightarrow> [[x]]
            | w # ws \<Rightarrow> (x # w) # ws))"

text \<open>\<^verbatim>\<open>s.split(c, 1)[0]\<close>: the part before the first \<open>c\<close>.\<close>

definition split_first :: "char \<Rightarrow> string \<Rightarrow> string" where
  "split_first c s = takeWhile (\<lambda>x. x \<noteq> c) s"

text \<open>\<^verbatim>\<open>sep.join(words)\<close>.\<close>

fun str_join :: "string \<Rightarrow> string list \<Rightarrow> string" where
  "str_join sep [] = []"
| "str_join sep [w] = w"
| "str_join sep (w # v # ws) = w @ sep @ str_join sep (v # ws)"

text \<open>
  \<^verbatim>\<open>s.rstrip()\<close> removes trailing white space. Among the characters below 256 Python counts
  as white space the codes 9 to 13, 28 to 32, 133 and 160. \<^verbatim>\<open>s.rstrip('/')\<close> removes
  trailing slashes.
\<close>

definition isspace :: "char \<Rightarrow> bool" where
  "isspace c = (let n = (of_char c :: nat) in
     (9 \<le> n \<and> n \<le> 13) \<or> (28 \<le> n \<and> n \<le> 32) \<or> n = 133 \<or> n = 160)"

definition rstrip :: "string \<Rightarrow> string" where
  "rstrip s = rev (dropWhile isspace (rev s))"

definition rstrip_sep :: "string \<Rightarrow> string" where
  "rstrip_sep s = rev (dropWhile (\<lambda>c. c = CHR ''/'') (rev s))"

text \<open>
  \<^verbatim>\<open>s.lower()\<close> on characters below 256: the letters A to Z and the upper-case letters of
  Latin-1 (192 to 222 without the multiplication sign 215) move up by 32.
\<close>

definition lower_char :: "char \<Rightarrow> char" where
  "lower_char c = (let n = (of_char c :: nat) in
     if (65 \<le> n \<and> n \<le> 90) \<or> (192 \<le> n \<and> n \<le> 222 \<and> n \<noteq> 215)
     then char_of (n + 32) else c)"

definition lower :: "string \<Rightarrow> string" where
  "lower s = map lower_char s"

text \<open>\<^verbatim>\<open>s.rfind(c)\<close>: the highest index of \<open>c\<close> in \<open>s\<close>, or \<open>-1\<close>.\<close>

definition rfind :: "char \<Rightarrow> string \<Rightarrow> int" where
  "rfind c s = (if c \<in> set s
     then int (length s) - 1 - int (length (takeWhile (\<lambda>x. x \<noteq> c) (rev s)))
     else - 1)"

text \<open>The slice \<^verbatim>\<open>s[i:j]\<close> for \<open>0 \<le> i\<close> and \<open>0 \<le> j\<close>.\<close>

definition slice :: "string \<Rightarrow> int \<Rightarrow> int \<Rightarrow> string" where
  "slice s i j = take (nat j - nat i) (drop (nat i) s)"

text \<open>\<^verbatim>\<open>str(n)\<close> for a natural number.\<close>

fun str_nat :: "nat \<Rightarrow> string" where
  "str_nat n = (if n < 10 then [char_of (48 + n)]
                else str_nat (n div 10) @ [char_of (48 + n mod 10)])"

declare str_nat.simps [simp del]

subsection \<open>posixpath\<close>

text \<open>
  \<^verbatim>\<open>posixpath.join(a, b)\<close>, one step of the loop over the components: an absolute \<open>b\<close>
  replaces the path, otherwise \<open>b\<close> is appended with a separator if one is needed.
\<close>

definition join :: "string \<Rightarrow> string \<Rightarrow> string" where
  "join a b =
     (if startswith b ''/'' then b
      else if a = [] \<or> endswith a ''/'' then a @ b
      else a @ ''/'' @ b)"

text \<open>\<^verbatim>\<open>posixpath.dirname(p)\<close>.\<close>

definition dirname :: "string \<Rightarrow> string" where
  "dirname p =
     (let i = rfind CHR ''/'' p + 1;
          head = slice p 0 i
      in if head \<noteq> [] \<and> head \<noteq> replicate (length head) CHR ''/''
         then rstrip_sep head else head)"

text \<open>
  \<^verbatim>\<open>posixpath.splitext(p)\<close> (\<^verbatim>\<open>genericpath._splitext\<close>): the extension starts at the last
  dot of the last component, unless only dots come before it in that component.
\<close>

definition splitext :: "string \<Rightarrow> string \<times> string" where
  "splitext p =
     (let sepIndex = rfind CHR ''/'' p;
          dotIndex = rfind CHR ''.'' p
      in if dotIndex > sepIndex
            \<and> list_ex (\<lambda>c. c \<noteq> CHR ''.'') (slice p (sepIndex + 1) dotIndex)
         then (take (nat dotIndex) p, drop (nat dotIndex) p)
         else (p, []))"

text \<open>
  \<^verbatim>\<open>posixpath.normpath(path)\<close>. \<open>normpath_step\<close> is the body of the loop over the
  components (\<open>c\<close> is the loop variable \<^verbatim>\<open>comp\<close>), \<open>new_comps\<close> the list it builds.
\<close>

definition normpath_step :: "bool \<Rightarrow> string list \<Rightarrow> string \<Rightarrow> string list" where
  "normpath_step initial_slashes new_comps c =
     (if c = [] \<or> c = ''.'' then new_comps
      else if c \<noteq> ''..'' \<or> (\<not> initial_slashes \<and> new_comps = [])
              \<or> (new_comps \<noteq> [] \<and> last new_comps = ''..'')
           then new_comps @ [c]
      else if new_comps \<noteq> [] then butlast new_comps
      else new_comps)"

definition normpath :: "string \<Rightarrow> string" where
  "normpath p =
     (if p = [] then ''.''
      else
        let initial_slashes =
              (if startswith p ''/''
               then (if startswith p ''//'' \<and> \<not> startswith p ''///'' then 2 else 1 :: nat)
               else 0);
            comps = foldl (normpath_step (initial_slashes \<noteq> 0)) [] (str_split CHR ''/'' p);
            q = replicate initial_slashes CHR ''/'' @ str_join ''/'' comps
        in if q = [] then ''.'' else q)"

text \<open>\<^verbatim>\<open>posixpath.abspath(path)\<close>, with the current directory as an argument.\<close>

definition abspath :: "string \<Rightarrow> string \<Rightarrow> string" where
  "abspath cwd p = normpath (if startswith p ''/'' then p else join cwd p)"

subsection \<open>The file system, the library's parameters, requests and responses\<close>

text \<open>
  The file system is what \<^verbatim>\<open>stat\<close>, \<^verbatim>\<open>open\<close> and \<^verbatim>\<open>listdir\<close> find at a path string:
  nothing, a regular file (its bytes, its modification time in whole seconds, whether this
  process may read it) or a directory (its entries, whether this process may list it).
  Symbolic links are followed by the kernel and do not appear.
\<close>

datatype node =
    RegularFile (file_bytes: string) (st_mtime: int) (may_read: bool)
  | Directory (dir_names: "string list") (may_list: bool)

type_synonym filesystem = "string \<Rightarrow> node option"

text \<open>\<^verbatim>\<open>os.path.isdir\<close>, \<^verbatim>\<open>os.path.isfile\<close>; \<^verbatim>\<open>open(path, 'rb')\<close> followed by \<^verbatim>\<open>os.fstat\<close>
  and the read of the whole file, and \<^verbatim>\<open>os.listdir\<close>, where \<open>None\<close> is \<^verbatim>\<open>OSError\<close>.\<close>

definition isdir :: "filesystem \<Rightarrow> string \<Rightarrow> bool" where
  "isdir fs p = (case fs p of Some (Directory ns l) \<Rightarrow> True | _ \<Rightarrow> False)"

definition isfile :: "filesystem \<Rightarrow> string \<Rightarrow> bool" where
  "isfile fs p = (case fs p of Some (RegularFile b m r) \<Rightarrow> True | _ \<Rightarrow> False)"

definition open_rb :: "filesystem \<Rightarrow> string \<Rightarrow> (string \<times> int) option" where
  "open_rb fs p = (case fs p of Some (RegularFile b m True) \<Rightarrow> Some (b, m) | _ \<Rightarrow> None)"

definition listdir :: "filesystem \<Rightarrow> string \<Rightarrow> string list option" where
  "listdir fs p = (case fs p of Some (Directory ns True) \<Rightarrow> Some ns | _ \<Rightarrow> None)"

text \<open>
  Library code that is not embedded is a parameter, so that every theorem holds whatever
  it computes:
  \<^item> \<open>unquote_escapes\<close>: \<^verbatim>\<open>urllib.parse.unquote\<close> on a string that contains a percent sign
    (the decoding of the escapes as UTF-8, with the fallback on a decoding error);
  \<^item> \<open>urlsplit_path\<close>: the \<^verbatim>\<open>path\<close> component of \<^verbatim>\<open>urllib.parse.urlsplit\<close>, \<open>None\<close> where
    it raises \<^verbatim>\<open>ValueError\<close>; \<open>redirect_url\<close>: the URL rebuilt by \<^verbatim>\<open>urlunsplit\<close> with a
    slash added to the path;
  \<^item> \<open>version_string\<close>, \<open>date_time_string\<close>: the values of the \<^verbatim>\<open>Server\<close> header and of
    a formatted time stamp; \<open>repr\<close>: \<^verbatim>\<open>'%r' % s\<close>;
  \<^item> \<open>error_content\<close>: the encoded HTML page of \<^verbatim>\<open>send_error\<close> for a code and a message;
    \<open>listing_content\<close>: the encoded HTML page of \<^verbatim>\<open>list_directory\<close> for the file
    system, the directory, the request path and the names;
    \<open>filesystemencoding\<close>: \<^verbatim>\<open>sys.getfilesystemencoding()\<close>;
  \<^item> \<open>extensions_map_default\<close>: the class attribute \<^verbatim>\<open>extensions_map\<close> of the handler as
    the library defines it, before the script updates it; \<open>types_map\<close>: the table of
    \<^verbatim>\<open>mimetypes\<close> after \<^verbatim>\<open>mimetypes.init()\<close>, which also reads the \<^verbatim>\<open>mime.types\<close> files of
    the system;
  \<^item> \<open>key_matches\<close>: whether OpenSSL accepts a certificate chain (the bytes of the first
    file) together with a private key (the bytes of the second).
\<close>

record pylib =
  unquote_escapes :: "string \<Rightarrow> string"
  urlsplit_path :: "string \<Rightarrow> string option"
  redirect_url :: "string \<Rightarrow> string"
  version_string :: string
  date_time_string :: "int \<Rightarrow> string"
  repr :: "string \<Rightarrow> string"
  error_content :: "nat \<Rightarrow> string \<Rightarrow> string"
  listing_content :: "filesystem \<Rightarrow> string \<Rightarrow> string \<Rightarrow> string list \<Rightarrow> string"
  filesystemencoding :: string
  extensions_map_default :: "string \<rightharpoonup> string"
  types_map :: "string \<rightharpoonup> string"
  key_matches :: "string \<Rightarrow> string \<Rightarrow> bool"

text \<open>
  What a request is handled against: the file system, the directory of the handler
  (\<^verbatim>\<open>self.directory\<close>, which is \<^verbatim>\<open>os.getcwd()\<close> when the handler is made) and the clock.
\<close>

record world =
  fs :: filesystem
  directory :: string
  now :: int

text \<open>
  A request as \<^verbatim>\<open>parse_request\<close> leaves it when it returns \<^verbatim>\<open>True\<close> for an HTTP/1.x
  request line: \<^verbatim>\<open>self.command\<close>, \<^verbatim>\<open>self.path\<close>, and of \<^verbatim>\<open>self.headers\<close> the two that
  \<^verbatim>\<open>send_head\<close> reads. \<open>if_modified_since\<close> is the date of the \<^verbatim>\<open>If-Modified-Since\<close> header in
  seconds since the epoch, when the header is there, \<^verbatim>\<open>parsedate_to_datetime\<close> accepts it
  and its time zone is UTC or missing; \<open>None\<close> otherwise. \<open>if_none_match\<close> says whether
  an \<^verbatim>\<open>If-None-Match\<close> header is there.
\<close>

record request =
  command :: string
  path :: string
  if_modified_since :: "int option"
  if_none_match :: bool

text \<open>
  What the handler writes: the status code of the status line, the header lines in order,
  the body. \<open>opened\<close> is not sent: it lists the paths the handler itself gave to \<^verbatim>\<open>open\<close>
  or \<^verbatim>\<open>os.listdir\<close> on the way, whether the call succeeded or not. What the library reads
  to fill its own tables is not in the list: the first time a type is guessed,
  \<^verbatim>\<open>mimetypes.init()\<close> reads the \<^verbatim>\<open>mime.types\<close> files of the system, whose entries are the
  parameter \<open>types_map\<close>.
\<close>

record response =
  status :: nat
  headers :: "(string \<times> string) list"
  body :: string
  opened :: "string list"

subsection \<open>The MIME table: the script's update and the library's lookup\<close>

text \<open>
  Lines 15 to 22 of the script: \<^verbatim>\<open>handler.extensions_map.update({...})\<close>. The argument is
  the table the library ships; entries of the script win.
\<close>

definition extensions_map :: "(string \<rightharpoonup> string) \<Rightarrow> (string \<rightharpoonup> string)" where
  "extensions_map defaults = defaults ++ map_of
     [(''.js'', ''application/javascript''),
      (''.css'', ''text/css''),
      (''.html'', ''text/html''),
      (''.json'', ''application/json''),
      (''.png'', ''image/png''),
      (''.xml'', ''application/xml'')]"

text \<open>
  \<^verbatim>\<open>mimetypes.guess_type(url)\<close>, first component of the result, for \<^verbatim>\<open>strict=True\<close>. The
  tables \<^verbatim>\<open>suffix_map\<close> and \<^verbatim>\<open>encodings_map\<close> are the constants of \<^verbatim>\<open>mimetypes.py\<close>
  (reading \<^verbatim>\<open>mime.types\<close> files adds types only). The handler passes a file-system path that
  starts with its directory, an absolute path: such a string has no URL scheme, so the
  branch for \<^verbatim>\<open>data:\<close> URLs at the top of the function is not reached and is left out.
  \<open>suffix_loop\<close> is the \<^verbatim>\<open>while\<close> loop that replaces suffix aliases.
\<close>

definition suffix_map :: "string \<rightharpoonup> string" where
  "suffix_map = map_of
     [(''.svgz'', ''.svg.gz''),
      (''.tgz'', ''.tar.gz''),
      (''.taz'', ''.tar.gz''),
      (''.tz'', ''.tar.gz''),
      (''.tbz2'', ''.tar.bz2''),
      (''.txz'', ''.tar.xz'')]"

definition encodings_map :: "string \<rightharpoonup> string" where
  "encodings_map = map_of
     [(''.gz'', ''gzip''),
      (''.Z'', ''compress''),
      (''.bz2'', ''bzip2''),
      (''.xz'', ''xz''),
      (''.br'', ''br'')]"

text \<open>Facts about \<open>rfind\<close> and \<open>splitext\<close> that the termination of the loop needs.\<close>

lemma rfind_last: "c \<notin> set t \<Longrightarrow> rfind c (s @ c # t) = int (length s)"
  by (simp add: rfind_def takeWhile_append)

lemma rfind_append: "c \<notin> set t \<Longrightarrow> rfind c (s @ t) = rfind c s"
  by (simp add: rfind_def takeWhile_append)

lemma rfind_succ: "\<exists>k \<le> length s. rfind c s + 1 = int k"
proof (cases "c \<in> set s")
  case True
  have "length (takeWhile (\<lambda>x. x \<noteq> c) (rev s)) \<le> length s"
    using length_takeWhile_le [of "\<lambda>x. x \<noteq> c" "rev s"] by simp
  then have "rfind c s + 1 = int (length s - length (takeWhile (\<lambda>x. x \<noteq> c) (rev s)))"
    using True by (simp add: rfind_def of_nat_diff)
  then show ?thesis
    using diff_le_self by blast
next
  case False
  then have "rfind c s + 1 = int 0" by (simp add: rfind_def)
  then show ?thesis by blast
qed

lemma splitext_suffix:
  assumes y: "CHR ''.'' \<notin> set y" "CHR ''/'' \<notin> set y"
      and x: "CHR ''/'' \<notin> set x" "\<exists>c \<in> set x. c \<noteq> CHR ''.''"
  shows "splitext (b @ x @ CHR ''.'' # y) = (b @ x, CHR ''.'' # y)"
proof -
  let ?p = "b @ x @ CHR ''.'' # y"
  have dot: "rfind CHR ''.'' ?p = int (length b + length x)"
    using rfind_last [of "CHR ''.''" y "b @ x"] y by simp
  have sep: "rfind CHR ''/'' ?p = rfind CHR ''/'' b"
    using rfind_append [of "CHR ''/''" "x @ CHR ''.'' # y" b] x y by simp
  obtain k where k: "k \<le> length b" "rfind CHR ''/'' b + 1 = int k"
    using rfind_succ [of b "CHR ''/''"] by blast
  have sl: "slice ?p (rfind CHR ''/'' ?p + 1) (rfind CHR ''.'' ?p) = drop k b @ x"
    using k by (simp add: slice_def dot sep)
  have gt: "rfind CHR ''.'' ?p > rfind CHR ''/'' ?p"
    using k by (simp add: dot sep)
  have ex: "list_ex (\<lambda>c. c \<noteq> CHR ''.'') (drop k b @ x)"
    using x by (auto simp add: list_ex_iff)
  have "splitext ?p = (take (nat (rfind CHR ''.'' ?p)) ?p, drop (nat (rfind CHR ''.'' ?p)) ?p)"
    unfolding splitext_def Let_def using gt ex sl by simp
  then show ?thesis
    by (simp add: dot)
qed

function suffix_loop :: "string \<times> string \<Rightarrow> string \<times> string" where
  "suffix_loop (base, ext) =
     (case suffix_map (lower ext) of
        Some s \<Rightarrow> suffix_loop (splitext (base @ s))
      | None \<Rightarrow> (base, ext))"
  by pat_completeness auto
termination
proof (relation "measure (\<lambda>(b, e). if suffix_map (lower e) = None then 0 else 1)")
  show "wf (measure (\<lambda>(b, e). if suffix_map (lower e) = None then 0 else 1 :: nat))"
    by simp
next
  fix base ext s
  assume s: "suffix_map (lower ext) = Some s"
  then have "s \<in> {''.svg.gz'', ''.tar.gz'', ''.tar.bz2'', ''.tar.xz''}"
    by (auto simp add: suffix_map_def split: if_splits)
  then have "snd (splitext (base @ s)) \<in> {''.gz'', ''.bz2'', ''.xz''}"
    using splitext_suffix [of "''gz''" "''.svg''" base]
      splitext_suffix [of "''gz''" "''.tar''" base]
      splitext_suffix [of "''bz2''" "''.tar''" base]
      splitext_suffix [of "''xz''" "''.tar''" base]
    by auto
  then have "suffix_map (lower (snd (splitext (base @ s)))) = None"
    by (auto simp add: suffix_map_def lower_def lower_char_def)
  with s show "(splitext (base @ s), (base, ext))
      \<in> measure (\<lambda>(b, e). if suffix_map (lower e) = None then 0 else 1)"
    by (cases "splitext (base @ s)") simp
qed

declare suffix_loop.simps [simp del]

definition mimetypes_guess_type :: "(string \<rightharpoonup> string) \<Rightarrow> string \<Rightarrow> string option" where
  "mimetypes_guess_type tm url =
     (let (base, ext) = suffix_loop (splitext url);
          (base, ext) = (if encodings_map ext \<noteq> None then splitext base else (base, ext))
      in tm (lower ext))"

text \<open>
  \<^verbatim>\<open>SimpleHTTPRequestHandler.guess_type(path)\<close>: the extension as it is, then in lower
  case, in the handler's table; then \<^verbatim>\<open>mimetypes.guess_type\<close> on the whole path; then
  \<^verbatim>\<open>application/octet-stream\<close>.
\<close>

definition guess_type :: "pylib \<Rightarrow> string \<Rightarrow> string" where
  "guess_type L p =
     (let ext = snd (splitext p);
          table = extensions_map (extensions_map_default L)
      in case table ext of
           Some t \<Rightarrow> t
         | None \<Rightarrow>
            (case table (lower ext) of
               Some t \<Rightarrow> t
             | None \<Rightarrow>
                (case mimetypes_guess_type (types_map L) p of
                   Some guess \<Rightarrow> if guess \<noteq> [] then guess else ''application/octet-stream''
                 | None \<Rightarrow> ''application/octet-stream'')))"

subsection \<open>SimpleHTTPRequestHandler\<close>

text \<open>\<^verbatim>\<open>urllib.parse.unquote\<close>: a string without a percent sign is returned as it is.\<close>

definition unquote :: "pylib \<Rightarrow> string \<Rightarrow> string" where
  "unquote L s = (if CHR ''%'' \<notin> set s then s else unquote_escapes L s)"

text \<open>
  \<^verbatim>\<open>translate_path(path)\<close>. \<open>translate_step\<close> is the body of the loop over the words,
  \<open>dir\<close> is \<^verbatim>\<open>self.directory\<close>.
\<close>

definition translate_step :: "string \<Rightarrow> string \<Rightarrow> string" where
  "translate_step p word =
     (if dirname word \<noteq> [] \<or> word = ''.'' \<or> word = ''..'' then p else join p word)"

definition translate_path :: "pylib \<Rightarrow> string \<Rightarrow> string \<Rightarrow> string" where
  "translate_path L dir p0 =
     (let p1 = split_first CHR ''?'' p0;
          p2 = split_first CHR ''#'' p1;
          trailing_slash = endswith (rstrip p2) ''/'';
          p3 = normpath (unquote L p2);
          words = filter (\<lambda>w. w \<noteq> []) (str_split CHR ''/'' p3);
          p4 = foldl translate_step dir words
      in if trailing_slash then p4 @ ''/'' else p4)"

text \<open>
  \<^verbatim>\<open>send_response(code)\<close> starts every response with the \<^verbatim>\<open>Server\<close> and \<^verbatim>\<open>Date\<close> headers.
  \<^verbatim>\<open>send_error(code, message)\<close> writes a complete error response; the page is left out
  for the codes that have no body, and it is not written when the command is HEAD.
\<close>

definition send_response :: "pylib \<Rightarrow> world \<Rightarrow> (string \<times> string) list" where
  "send_response L W =
     [(''Server'', version_string L), (''Date'', date_time_string L (now W))]"

definition send_error :: "pylib \<Rightarrow> world \<Rightarrow> string \<Rightarrow> nat \<Rightarrow> string \<Rightarrow> string list \<Rightarrow> response" where
  "send_error L W cmd code message ops =
     (let has_body = (code \<ge> 200 \<and> code \<noteq> 204 \<and> code \<noteq> 205 \<and> code \<noteq> 304);
          content = error_content L code message
      in \<lparr>status = code,
          headers = send_response L W @ [(''Connection'', ''close'')]
            @ (if has_body
               then [(''Content-Type'', ''text/html;charset=utf-8''),
                     (''Content-Length'', str_nat (length content))]
               else []),
          body = (if cmd \<noteq> ''HEAD'' \<and> has_body then content else []),
          opened = ops\<rparr>)"

text \<open>
  \<^verbatim>\<open>list_directory(path)\<close> and \<^verbatim>\<open>send_head()\<close> send the status line and the headers and
  return the file object whose content the caller has to copy, or \<^verbatim>\<open>None\<close>. Here they
  return the response written so far and, as \<open>Some bytes\<close>, the content of that file
  object. \<open>send_head_file\<close> is the part of \<^verbatim>\<open>send_head\<close> from
  \<^verbatim>\<open>ctype = self.guess_type(path)\<close> on, \<open>not_modified\<close> its test for the answer 304.
  The result of \<open>send_head\<close> is \<open>None\<close> where an exception leaves the handler
  (\<^verbatim>\<open>urlsplit\<close> raising \<^verbatim>\<open>ValueError\<close>): then nothing is written.
\<close>

definition list_directory :: "pylib \<Rightarrow> world \<Rightarrow> request \<Rightarrow> string \<Rightarrow> response \<times> string option" where
  "list_directory L W r p =
     (case listdir (fs W) p of
        None \<Rightarrow>
          (send_error L W (command r) 404 ''No permission to list directory'' [p], None)
      | Some names \<Rightarrow>
          (let encoded = listing_content L (fs W) p (path r) names
           in (\<lparr>status = 200,
                headers = send_response L W
                  @ [(''Content-type'', ''text/html; charset='' @ filesystemencoding L),
                     (''Content-Length'', str_nat (length encoded))],
                body = [],
                opened = [p]\<rparr>, Some encoded)))"

definition not_modified :: "request \<Rightarrow> int \<Rightarrow> bool" where
  "not_modified r mtime =
     (case if_modified_since r of
        Some ims \<Rightarrow> \<not> if_none_match r \<and> mtime \<le> ims
      | None \<Rightarrow> False)"

definition send_head_file :: "pylib \<Rightarrow> world \<Rightarrow> request \<Rightarrow> string \<Rightarrow> response \<times> string option" where
  "send_head_file L W r p =
     (let ctype = guess_type L p
      in if endswith p ''/'' then (send_error L W (command r) 404 ''File not found'' [], None)
         else
           (case open_rb (fs W) p of
              None \<Rightarrow> (send_error L W (command r) 404 ''File not found'' [p], None)
            | Some (bytes, mtime) \<Rightarrow>
                if not_modified r mtime
                then (\<lparr>status = 304, headers = send_response L W, body = [], opened = [p]\<rparr>,
                      None)
                else (\<lparr>status = 200,
                       headers = send_response L W
                         @ [(''Content-type'', ctype),
                            (''Content-Length'', str_nat (length bytes)),
                            (''Last-Modified'', date_time_string L mtime)],
                       body = [],
                       opened = [p]\<rparr>, Some bytes)))"

definition send_head :: "pylib \<Rightarrow> world \<Rightarrow> request \<Rightarrow> (response \<times> string option) option" where
  "send_head L W r =
     (let p = translate_path L (directory W) (path r)
      in if isdir (fs W) p
         then (case urlsplit_path L (path r) of
                 None \<Rightarrow> None
               | Some parts_path \<Rightarrow>
                   if \<not> endswith parts_path ''/''
                   then Some (\<lparr>status = 301,
                               headers = send_response L W
                                 @ [(''Location'', redirect_url L (path r)),
                                    (''Content-Length'', ''0'')],
                               body = [],
                               opened = []\<rparr>, None)
                   else if isfile (fs W) (join p ''index.html'')
                     then Some (send_head_file L W r (join p ''index.html''))
                   else if isfile (fs W) (join p ''index.htm'')
                     then Some (send_head_file L W r (join p ''index.htm''))
                   else Some (list_directory L W r p))
         else Some (send_head_file L W r p))"

text \<open>
  \<^verbatim>\<open>do_GET\<close> copies the file object that \<^verbatim>\<open>send_head\<close> returns to the client, \<^verbatim>\<open>do_HEAD\<close>
  closes it.
\<close>

definition do_GET :: "pylib \<Rightarrow> world \<Rightarrow> request \<Rightarrow> response option" where
  "do_GET L W r =
     (case send_head L W r of
        None \<Rightarrow> None
      | Some (resp, None) \<Rightarrow> Some resp
      | Some (resp, Some f) \<Rightarrow> Some (resp\<lparr>body := body resp @ f\<rparr>))"

definition do_HEAD :: "pylib \<Rightarrow> world \<Rightarrow> request \<Rightarrow> response option" where
  "do_HEAD L W r =
     (case send_head L W r of
        None \<Rightarrow> None
      | Some (resp, f) \<Rightarrow> Some resp)"

text \<open>
  \<^verbatim>\<open>handle_one_request\<close> after \<^verbatim>\<open>parse_request\<close>: the method \<^verbatim>\<open>'do_' + self.command\<close> is
  called if the handler has it, and the class has \<^verbatim>\<open>do_GET\<close> and \<^verbatim>\<open>do_HEAD\<close> only;
  otherwise \<^verbatim>\<open>send_error(HTTPStatus.NOT_IMPLEMENTED, ...)\<close>, which is code 501.
\<close>

definition handle_one_request :: "pylib \<Rightarrow> world \<Rightarrow> request \<Rightarrow> response option" where
  "handle_one_request L W r =
     (if command r = ''GET'' then do_GET L W r
      else if command r = ''HEAD'' then do_HEAD L W r
      else Some (send_error L W (command r) 501
                   (''Unsupported method ('' @ repr L (command r) @ '')'') []))"

subsection \<open>The script\<close>

text \<open>
  Lines 7 to 10. \<^verbatim>\<open>__file__\<close> is the path the script was started with, \<open>cwd0\<close> the working
  directory at that moment; \<^verbatim>\<open>os.path.join\<close> with three arguments joins from the left.
\<close>

definition PORT :: nat where
  "PORT = 3000"

definition BASE_DIR :: "string \<Rightarrow> string \<Rightarrow> string" where
  "BASE_DIR cwd0 file = dirname (abspath cwd0 file)"

definition CERT_FILE :: "string \<Rightarrow> string \<Rightarrow> string" where
  "CERT_FILE cwd0 file = join (join (BASE_DIR cwd0 file) ''certs'') ''server.crt''"

definition KEY_FILE :: "string \<Rightarrow> string \<Rightarrow> string" where
  "KEY_FILE cwd0 file = join (join (BASE_DIR cwd0 file) ''certs'') ''server.key''"

text \<open>
  What the process starts with. The script reads neither \<^verbatim>\<open>sys.argv\<close> nor \<^verbatim>\<open>os.environ\<close>;
  they are part of the input all the same. \<open>address_free\<close> says whether \<^verbatim>\<open>bind\<close> on a
  host and port succeeds.
\<close>

record startup =
  script_file :: string
  start_cwd :: string
  argv :: "string list"
  environ :: "(string \<times> string) list"
  disk :: filesystem
  address_free :: "string \<Rightarrow> nat \<Rightarrow> bool"
  clock :: int

text \<open>
  The exceptions that reach the top level of the script, which has no \<^verbatim>\<open>try\<close> statement.
  For an exception nothing catches the interpreter prints the traceback on the standard
  error stream and ends the process with status 1; for \<^verbatim>\<open>KeyboardInterrupt\<close> it restores the
  default action of \<^verbatim>\<open>SIGINT\<close> and kills the process with that signal, number 2 (CPython 3.8
  and later; a shell reports 130).
\<close>

datatype exn = OSError | SSLError | KeyboardInterrupt

datatype exit_status = Exited nat | Killed nat

definition uncaught :: "exn \<Rightarrow> exit_status" where
  "uncaught e = (if e = KeyboardInterrupt then Killed 2 else Exited 1)"

text \<open>
  \<^verbatim>\<open>ssl.SSLContext.load_cert_chain(certfile, keyfile)\<close> reads both files and raises when
  one cannot be read or when OpenSSL does not accept what they hold, which includes a key
  that does not belong to the certificate.
\<close>

definition load_cert_chain :: "pylib \<Rightarrow> filesystem \<Rightarrow> string \<Rightarrow> string \<Rightarrow> exn + string \<times> string" where
  "load_cert_chain L d certfile keyfile =
     (case open_rb d certfile of
        None \<Rightarrow> Inl OSError
      | Some (cert, t) \<Rightarrow>
          (case open_rb d keyfile of
             None \<Rightarrow> Inl OSError
           | Some (key, u) \<Rightarrow>
               if key_matches L cert key then Inr (cert, key) else Inl SSLError))"

text \<open>
  \<^verbatim>\<open>serve_forever()\<close> over what arrives while it runs: a request on a connection whose TLS
  handshake succeeded and whose request line \<^verbatim>\<open>parse_request\<close> accepted, or the interrupt
  signal, which raises \<^verbatim>\<open>KeyboardInterrupt\<close> in the loop. The loop has no other way out: at
  the end of the list it is still waiting. The result is the list of what was written for
  each request, and the exception that ended the loop, if one did.
\<close>

datatype event = Request request | Interrupt

fun serve_forever :: "pylib \<Rightarrow> world \<Rightarrow> event list \<Rightarrow> response option list \<times> exn option" where
  "serve_forever L W [] = ([], None)"
| "serve_forever L W (Request r # evs) =
     (let (rs, e) = serve_forever L W evs in (handle_one_request L W r # rs, e))"
| "serve_forever L W (Interrupt # evs) = ([], Some KeyboardInterrupt)"

text \<open>
  The script from top to bottom. \<open>actions\<close> lists the calls that succeeded, in order;
  \<open>ServerClose\<close> stands for \<^verbatim>\<open>httpd.server_close()\<close>, which the script does not contain.
  \<open>traceback\<close> is the exception whose traceback the interpreter prints, \<open>exit_status\<close> is
  \<open>None\<close> while the process runs. \<^verbatim>\<open>os.chdir\<close> raises unless its argument is a directory,
  the constructor of \<^verbatim>\<open>HTTPServer\<close> binds and listens and raises when the address is taken.
  The handlers get \<^verbatim>\<open>os.getcwd()\<close> as their directory, which is \<^verbatim>\<open>BASE_DIR\<close> after the
  \<^verbatim>\<open>chdir\<close> (for a \<^verbatim>\<open>BASE_DIR\<close> without symbolic links).
\<close>

datatype action =
    Chdir string
  | Listen string nat
  | LoadCertChain string string
  | WrapSocket
  | Print string
  | ServeForever
  | ServerClose

record outcome =
  actions :: "action list"
  responses :: "response option list"
  traceback :: "exn option"
  exit_status :: "exit_status option"

definition raised :: "exn \<Rightarrow> action list \<Rightarrow> outcome" where
  "raised e done =
     \<lparr>actions = done, responses = [], traceback = Some e, exit_status = Some (uncaught e)\<rparr>"

definition run :: "pylib \<Rightarrow> startup \<Rightarrow> event list \<Rightarrow> outcome" where
  "run L s evs =
     (let base = BASE_DIR (start_cwd s) (script_file s);
          cert = CERT_FILE (start_cwd s) (script_file s);
          key = KEY_FILE (start_cwd s) (script_file s)
      in if \<not> isdir (disk s) base then raised OSError []
         else if \<not> address_free s ''localhost'' PORT then raised OSError [Chdir base]
         else
           (case load_cert_chain L (disk s) cert key of
              Inl e \<Rightarrow> raised e [Chdir base, Listen ''localhost'' PORT]
            | Inr ctx \<Rightarrow>
                (let W = \<lparr>fs = disk s, directory = base, now = clock s\<rparr>;
                     (rs, e) = serve_forever L W evs
                 in \<lparr>actions =
                        [Chdir base, Listen ''localhost'' PORT, LoadCertChain cert key,
                         WrapSocket,
                         Print (''Serving on https://localhost:'' @ str_nat PORT),
                         Print ''Press Ctrl+C to stop'',
                         ServeForever],
                      responses = rs,
                      traceback = e,
                      exit_status = map_option uncaught e\<rparr>)))"

subsection \<open>Paths beneath a directory\<close>

text \<open>
  \<open>beneath base p\<close>: the path \<open>p\<close> is \<open>base\<close> itself or continues it at a component
  boundary, and no component of the continuation is \<^verbatim>\<open>..\<close>. Such a path cannot leave
  \<open>base\<close> by its spelling.
\<close>

definition beneath :: "string \<Rightarrow> string \<Rightarrow> bool" where
  "beneath base p =
     (startswith p base \<and>
      (let rest = drop (length base) p
       in (rest = [] \<or> endswith base ''/'' \<or> startswith rest ''/'')
          \<and> ''..'' \<notin> set (str_split CHR ''/'' rest)))"

subsection \<open>A library, a site and a start of the process for the examples\<close>

text \<open>
  \<open>py311\<close> gives the parameters values for the examples. The tables are those of
  CPython 3.11: \<open>extensions_map_default\<close> in full, of \<open>types_map\<close> the entries the
  examples look up. The request paths of the examples hold no percent sign and start with
  one slash, where \<^verbatim>\<open>urlsplit\<close> cuts the path at the first \<^verbatim>\<open>#\<close> or \<^verbatim>\<open>?\<close>; the pages and
  the formatted dates are placeholders.
\<close>

definition py311 :: pylib where
  "py311 =
     \<lparr>unquote_escapes = (\<lambda>s. s),
      urlsplit_path = (\<lambda>s. Some (split_first CHR ''?'' (split_first CHR ''#'' s))),
      redirect_url = (\<lambda>s. split_first CHR ''?'' (split_first CHR ''#'' s) @ ''/''),
      version_string = ''SimpleHTTP/0.6 Python/3.11.10'',
      date_time_string = (\<lambda>t. ''Thu, 01 Jan 1970 00:00:00 GMT''),
      repr = (\<lambda>s. [CHR 0x27] @ s @ [CHR 0x27]),
      error_content = (\<lambda>code message. message),
      listing_content = (\<lambda>d p q names. str_join [CHR 0x0A] names),
      filesystemencoding = ''utf-8'',
      extensions_map_default = map_of
        [(''.gz'', ''application/gzip''),
         (''.Z'', ''application/octet-stream''),
         (''.bz2'', ''application/x-bzip2''),
         (''.xz'', ''application/x-xz'')],
      types_map = map_of
        [(''.tar'', ''application/x-tar''),
         (''.svg'', ''image/svg+xml''),
         (''.txt'', ''text/plain'')],
      key_matches = (\<lambda>cert key. cert = ''CERTIFICATE'' \<and> key = ''PRIVATE KEY'')\<rparr>"

definition site :: filesystem where
  "site = map_of
     [(''/srv/www'', Directory [''app.js'', ''certs'', ''index.html'', ''serve.py''] True),
      (''/srv/www/'', Directory [''app.js'', ''certs'', ''index.html'', ''serve.py''] True),
      (''/srv/www/app.js'', RegularFile ''console.log(1);'' 1000 True),
      (''/srv/www/index.html'', RegularFile ''<h1>Hi</h1>'' 1000 True),
      (''/srv/www/serve.py'', RegularFile ''#!/usr/bin/env python3'' 1000 True),
      (''/srv/www/certs'', Directory [''server.crt'', ''server.key''] True),
      (''/srv/www/certs/'', Directory [''server.crt'', ''server.key''] True),
      (''/srv/www/certs/server.crt'', RegularFile ''CERTIFICATE'' 1000 True),
      (''/srv/www/certs/server.key'', RegularFile ''PRIVATE KEY'' 1000 True)]"

definition site_world :: world where
  "site_world = \<lparr>fs = site, directory = ''/srv/www'', now = 2000\<rparr>"

definition plain_request :: "string \<Rightarrow> string \<Rightarrow> request" where
  "plain_request cmd p =
     \<lparr>command = cmd, path = p, if_modified_since = None, if_none_match = False\<rparr>"

definition site_start :: startup where
  "site_start =
     \<lparr>script_file = ''serve.py'',
      start_cwd = ''/srv/www'',
      argv = [''serve.py'', ''--host'', ''0.0.0.0'', ''--port'', ''8080''],
      environ = [(''HOST'', ''0.0.0.0''), (''PORT'', ''8080'')],
      disk = site,
      address_free = (\<lambda>host port. True),
      clock = 2000\<rparr>"

text \<open>The number a string of decimal digits stands for, to read a \<^verbatim>\<open>Content-Length\<close>.\<close>

definition decimal :: "string \<Rightarrow> nat" where
  "decimal s = foldl (\<lambda>a c. 10 * a + (of_char c - 48)) 0 s"

text \<open>The site with the private key removed.\<close>

definition site_without_key :: startup where
  "site_without_key = site_start\<lparr>disk := site(''/srv/www/certs/server.key'' := None)\<rparr>"

section \<open>Properties\<close>

subsection \<open>Splitting and joining\<close>

lemma str_split_nonempty: "str_split c s \<noteq> []"
  by (induction s) (auto split: list.splits)

lemma str_split_append:
  "str_split c (a @ b) =
     butlast (str_split c a) @ (last (str_split c a) @ hd (str_split c b)) # tl (str_split c b)"
proof (induction a)
  case Nil
  then show ?case using str_split_nonempty [of c b] by (cases "str_split c b") auto
next
  case (Cons x a)
  show ?case
  proof (cases "x = c")
    case True
    then show ?thesis using Cons str_split_nonempty [of c a] by simp
  next
    case False
    then show ?thesis using Cons str_split_nonempty [of c a] str_split_nonempty [of c "a @ b"]
      by (cases "str_split c a"; cases "str_split c (a @ b)") (auto split: list.splits if_splits)
  qed
qed

lemma str_split_no_sep: "w \<in> set (str_split c s) \<Longrightarrow> c \<notin> set w"
  by (induction s arbitrary: w) (auto split: if_splits list.splits)

lemma str_split_plain: "c \<notin> set w \<Longrightarrow> str_split c w = [w]"
  by (induction w) auto

lemma endswith_slash: "endswith p ''/'' \<longleftrightarrow> p \<noteq> [] \<and> last p = CHR ''/''"
  by (cases p rule: rev_cases) (auto simp add: endswith_def)

lemma startswith_slash: "startswith p ''/'' \<longleftrightarrow> p \<noteq> [] \<and> hd p = CHR ''/''"
  by (cases p) (auto simp add: startswith_def)

lemma startswith_append: "startswith (b @ r) b"
  by (simp add: startswith_def)

lemma startswith_iff: "startswith p b \<longleftrightarrow> (\<exists>r. p = b @ r)"
  by (metis append_take_drop_id startswith_def startswith_append)

lemma last_split_slash: "last (str_split c (a @ [c])) = []"
  by (simp add: str_split_append)

lemma beneath_iff:
  "beneath base (base @ rest) \<longleftrightarrow>
     (rest = [] \<or> endswith base ''/'' \<or> startswith rest ''/'') \<and> ''..'' \<notin> set (str_split CHR ''/'' rest)"
  by (simp add: beneath_def startswith_def Let_def)

lemma beneath_self: "beneath base base"
  using beneath_iff [of base "[]"] by simp

lemma beneath_join:
  assumes b: "beneath base p" and ne: "base \<noteq> []"
    and w: "CHR ''/'' \<notin> set w" "w \<noteq> ''..''"
  shows "beneath base (join p w)"
proof -
  obtain rest where p: "p = base @ rest"
    using b by (auto simp add: beneath_def startswith_iff)
  have r: "(rest = [] \<or> endswith base ''/'' \<or> startswith rest ''/'')"
    "''..'' \<notin> set (str_split CHR ''/'' rest)"
    using b unfolding p beneath_iff by auto
  have nw: "\<not> startswith w ''/''"
    using w by (cases w) (auto simp add: startswith_def)
  show ?thesis
  proof (cases "endswith p ''/''")
    case True
    then have j: "join p w = base @ (rest @ w)"
      using nw by (simp add: join_def p)
    have l: "last (str_split CHR ''/'' rest) = []"
    proof (cases rest rule: rev_cases)
      case Nil then show ?thesis by simp
    next
      case (snoc ys y)
      then have "y = CHR ''/''" using True by (simp add: p endswith_slash)
      then show ?thesis using snoc last_split_slash by simp
    qed
    have "set (str_split CHR ''/'' (rest @ w)) \<subseteq> set (str_split CHR ''/'' rest) \<union> {w}"
      using l w str_split_nonempty [of "CHR ''/''" rest]
      by (auto simp add: str_split_append [of _ rest w] str_split_plain dest: in_set_butlastD)
    moreover have "rest @ w = [] \<or> endswith base ''/'' \<or> startswith (rest @ w) ''/''"
      using r(1) True by (cases rest) (auto simp add: p startswith_slash)
    ultimately show ?thesis
      unfolding j beneath_iff using r(2) w by auto
  next
    case False
    then have j: "join p w = base @ (rest @ CHR ''/'' # w)"
      using nw ne by (simp add: join_def p)
    have "str_split CHR ''/'' (rest @ CHR ''/'' # w) = str_split CHR ''/'' rest @ [w]"
      using w str_split_nonempty [of "CHR ''/''" rest]
      by (simp add: str_split_append [of _ rest] str_split_plain)
    moreover have "endswith base ''/'' \<or> startswith (rest @ CHR ''/'' # w) ''/''"
      using r(1) by (cases rest) (auto simp add: startswith_slash)
    ultimately show ?thesis
      unfolding j beneath_iff using r(2) w by auto
  qed
qed

lemma beneath_slash:
  assumes b: "beneath base p"
  shows "beneath base (p @ ''/'')"
proof -
  obtain rest where p: "p = base @ rest"
    using b by (auto simp add: beneath_def startswith_iff)
  have r: "(rest = [] \<or> endswith base ''/'' \<or> startswith rest ''/'')"
    "''..'' \<notin> set (str_split CHR ''/'' rest)"
    using b unfolding p beneath_iff by auto
  have "str_split CHR ''/'' (rest @ ''/'') = str_split CHR ''/'' rest @ [[]]"
    using str_split_nonempty [of "CHR ''/''" rest]
    by (simp add: str_split_append [of _ rest])
  moreover have "endswith base ''/'' \<or> startswith (rest @ ''/'') ''/''"
    using r(1) by (cases rest) (auto simp add: startswith_slash)
  ultimately have "beneath base (base @ (rest @ ''/''))"
    unfolding beneath_iff using r(2) by auto
  then show ?thesis by (simp add: p)
qed

lemma beneath_translate_step:
  "beneath base p \<Longrightarrow> base \<noteq> [] \<Longrightarrow> CHR ''/'' \<notin> set w \<Longrightarrow> beneath base (translate_step p w)"
  by (simp add: translate_step_def beneath_join)

lemma beneath_foldl:
  "beneath base p \<Longrightarrow> base \<noteq> [] \<Longrightarrow> \<forall>w \<in> set ws. CHR ''/'' \<notin> set w
     \<Longrightarrow> beneath base (foldl translate_step p ws)"
  by (induction ws arbitrary: p) (simp_all add: beneath_translate_step)

lemma beneath_translate_path:
  assumes "dir \<noteq> []"
  shows "beneath dir (translate_path L dir p)"
proof -
  have "beneath dir (foldl translate_step dir
          (filter (\<lambda>w. w \<noteq> []) (str_split CHR ''/'' s)))" for s
    using assms by (intro beneath_foldl beneath_self) (auto dest: str_split_no_sep)
  then show ?thesis
    by (simp add: translate_path_def Let_def beneath_slash)
qed

subsection \<open>What the handler opens and answers\<close>

lemma send_error_sel [simp]:
  "status (send_error L W cmd code msg ops) = code"
  "opened (send_error L W cmd code msg ops) = ops"
  by (simp_all add: send_error_def Let_def)

lemma send_head_file_cases:
  "set (opened (fst (send_head_file L W r p))) \<subseteq> {p}
     \<and> status (fst (send_head_file L W r p)) \<in> {200, 304, 404}"
  by (simp add: send_head_file_def Let_def split: option.split)

lemma list_directory_cases:
  "set (opened (fst (list_directory L W r p))) \<subseteq> {p}
     \<and> status (fst (list_directory L W r p)) \<in> {200, 404}"
  by (simp add: list_directory_def Let_def split: option.split)

lemma send_head_shape:
  "send_head L W r = None
   \<or> (\<exists>resp. send_head L W r = Some (resp, None) \<and> status resp = 301 \<and> opened resp = [])
   \<or> (\<exists>q \<in> {translate_path L (directory W) (path r),
               join (translate_path L (directory W) (path r)) ''index.html'',
               join (translate_path L (directory W) (path r)) ''index.htm''}.
         send_head L W r = Some (send_head_file L W r q))
   \<or> send_head L W r = Some (list_directory L W r (translate_path L (directory W) (path r)))"
  by (simp add: send_head_def Let_def split: option.split)

lemma send_head_cases:
  assumes sh: "send_head L W r = Some (resp, f)" and ne: "directory W \<noteq> []"
  shows "(\<forall>q \<in> set (opened resp). beneath (directory W) q) \<and> status resp \<in> {200, 301, 304, 404}"
proof -
  let ?p = "translate_path L (directory W) (path r)"
  have p: "beneath (directory W) ?p"
    using ne by (rule beneath_translate_path)
  have i1: "beneath (directory W) (join ?p ''index.html'')"
    using p ne by (rule beneath_join) simp_all
  have i2: "beneath (directory W) (join ?p ''index.htm'')"
    using p ne by (rule beneath_join) simp_all
  consider (redirect) "status resp = 301" "opened resp = []"
    | (regular) q where "q \<in> {?p, join ?p ''index.html'', join ?p ''index.htm''}"
        "resp = fst (send_head_file L W r q)"
    | (listing) "resp = fst (list_directory L W r ?p)"
    using sh send_head_shape [of L W r] by (metis fst_conv option.inject option.distinct(1))
  then show ?thesis
  proof cases
    case redirect
    then show ?thesis by simp
  next
    case regular
    then show ?thesis using send_head_file_cases [of L W r q] p i1 i2 by auto
  next
    case listing
    then show ?thesis using list_directory_cases [of L W r ?p] p by auto
  qed
qed

lemma do_GET_Some:
  assumes "do_GET L W r = Some resp"
  shows "\<exists>resp0 f. send_head L W r = Some (resp0, f) \<and> status resp = status resp0
           \<and> headers resp = headers resp0 \<and> opened resp = opened resp0"
proof (cases "send_head L W r")
  case None
  then show ?thesis using assms by (simp add: do_GET_def)
next
  case (Some a)
  obtain resp0 f where a: "a = (resp0, f)" by (cases a)
  show ?thesis using assms unfolding do_GET_def Some a by (cases f) auto
qed

lemma do_HEAD_Some:
  assumes "do_HEAD L W r = Some resp"
  shows "\<exists>f. send_head L W r = Some (resp, f)"
  using assms by (cases "send_head L W r") (auto simp add: do_HEAD_def)

lemma handle_one_request_cases:
  assumes h: "handle_one_request L W r = Some resp" and ne: "directory W \<noteq> []"
  shows "(\<forall>q \<in> set (opened resp). beneath (directory W) q) \<and> status resp \<in> {200, 301, 304, 404, 501}"
proof -
  consider (get) "do_GET L W r = Some resp" | (head) "do_HEAD L W r = Some resp"
    | (other) "resp = send_error L W (command r) 501
                        (''Unsupported method ('' @ repr L (command r) @ '')'') []"
    using h unfolding handle_one_request_def by (metis option.inject)
  then show ?thesis
  proof cases
    case get
    then obtain resp0 f where "send_head L W r = Some (resp0, f)"
      "status resp = status resp0" "opened resp = opened resp0"
      using do_GET_Some by blast
    then show ?thesis using send_head_cases [of L W r resp0 f] ne by auto
  next
    case head
    then obtain f where "send_head L W r = Some (resp, f)"
      using do_HEAD_Some by blast
    then show ?thesis using send_head_cases [of L W r resp f] ne by auto
  next
    case other
    then show ?thesis by simp
  qed
qed

text \<open>
  A request is answered by where its path resolves to: unless that place is a directory,
  the path itself plays no further part.
\<close>

lemma not_modified_path: "not_modified (r\<lparr>path := p'\<rparr>) mtime = not_modified r mtime"
  by (simp add: not_modified_def split: option.split)

lemma send_head_file_path:
  "send_head_file L W (r\<lparr>path := p'\<rparr>) q = send_head_file L W r q"
  by (simp add: send_head_file_def not_modified_path split: option.split)

lemma send_head_same_target:
  assumes "translate_path L (directory W) p' = translate_path L (directory W) (path r)"
    and "\<not> isdir (fs W) (translate_path L (directory W) (path r))"
  shows "send_head L W (r\<lparr>path := p'\<rparr>) = send_head L W r"
  using assms by (simp add: send_head_def Let_def send_head_file_path)

lemma handle_one_request_same_target:
  assumes "translate_path L (directory W) p' = translate_path L (directory W) (path r)"
    and "\<not> isdir (fs W) (translate_path L (directory W) (path r))"
  shows "handle_one_request L W (r\<lparr>path := p'\<rparr>) = handle_one_request L W r"
  using send_head_same_target [OF assms]
  by (simp add: handle_one_request_def do_GET_def do_HEAD_def)

subsection \<open>C1: the resolved path stays beneath the base directory\<close>

text \<open>
  C1, as amended. Whatever the request path is, the path \<^verbatim>\<open>translate_path\<close> hands to the
  rest of the handler is beneath the handler's directory, every path the handler itself
  gives to \<^verbatim>\<open>open\<close> or \<^verbatim>\<open>os.listdir\<close> is beneath it, and the status of the answer is one of
  200, 301, 304, 404 and 501. There is no 403: a request path that leads out of the
  directory is not refused. Its \<^verbatim>\<open>..\<close> components are dropped (by \<^verbatim>\<open>normpath\<close> at the root,
  by the loop of \<^verbatim>\<open>translate_path\<close> otherwise), and when the path it resolves to is not a
  directory, the request is answered exactly as the same request with any other path that
  resolves to the same place, such as the path without the \<^verbatim>\<open>..\<close> components.
\<close>

theorem resolved_path_beneath_directory:
  "directory W \<noteq> [] \<Longrightarrow>
     beneath (directory W) (translate_path L (directory W) (path r)) \<and>
     (\<forall>resp. handle_one_request L W r = Some resp \<longrightarrow>
        (\<forall>q \<in> set (opened resp). beneath (directory W) q) \<and>
        status resp \<in> {200, 301, 304, 404, 501}) \<and>
     (\<forall>p'. translate_path L (directory W) p' = translate_path L (directory W) (path r)
           \<and> \<not> isdir (fs W) (translate_path L (directory W) (path r))
        \<longrightarrow> handle_one_request L W (r\<lparr>path := p'\<rparr>) = handle_one_request L W r)"
  using beneath_translate_path handle_one_request_cases handle_one_request_same_target
  by blast

text \<open>
  At the request \<^verbatim>\<open>GET /../../etc/passwd\<close> of the specification's scenario: the handler
  looks at \<^verbatim>\<open>/srv/www/etc/passwd\<close> and at nothing else, and answers 404, as it answers
  \<^verbatim>\<open>GET /etc/passwd\<close>.
\<close>

theorem resolved_path_beneath_directory_witness:
  "directory site_world \<noteq> [] \<and>
   translate_path py311 (directory site_world) ''/../../etc/passwd'' = ''/srv/www/etc/passwd'' \<and>
   beneath (directory site_world) ''/srv/www/etc/passwd'' \<and>
   map_option status (handle_one_request py311 site_world (plain_request ''GET'' ''/../../etc/passwd'')) = Some 404 \<and>
   map_option opened (handle_one_request py311 site_world (plain_request ''GET'' ''/../../etc/passwd''))
     = Some [''/srv/www/etc/passwd''] \<and>
   translate_path py311 (directory site_world) ''/etc/passwd''
     = translate_path py311 (directory site_world) ''/../../etc/passwd'' \<and>
   \<not> isdir (fs site_world) (translate_path py311 (directory site_world) ''/../../etc/passwd'') \<and>
   handle_one_request py311 site_world (plain_request ''GET'' ''/etc/passwd'')
     = handle_one_request py311 site_world (plain_request ''GET'' ''/../../etc/passwd'')"
proof -
  let ?r = "plain_request ''GET'' ''/../../etc/passwd''"
  have ne: "directory site_world \<noteq> []"
    by code_simp
  have ev: "translate_path py311 (directory site_world) ''/../../etc/passwd'' = ''/srv/www/etc/passwd''"
    "map_option status (handle_one_request py311 site_world ?r) = Some 404"
    "map_option opened (handle_one_request py311 site_world ?r) = Some [''/srv/www/etc/passwd'']"
    "translate_path py311 (directory site_world) ''/etc/passwd''
       = translate_path py311 (directory site_world) ''/../../etc/passwd''"
    "\<not> isdir (fs site_world) (translate_path py311 (directory site_world) ''/../../etc/passwd'')"
    by code_simp+
  have p: "path ?r = ''/../../etc/passwd''" "?r\<lparr>path := ''/etc/passwd''\<rparr> = plain_request ''GET'' ''/etc/passwd''"
    by (simp_all add: plain_request_def)
  from resolved_path_beneath_directory [OF ne, of py311 ?r]
  have "beneath (directory site_world) (translate_path py311 (directory site_world) (path ?r))"
    and "translate_path py311 (directory site_world) ''/etc/passwd''
           = translate_path py311 (directory site_world) (path ?r)
         \<and> \<not> isdir (fs site_world) (translate_path py311 (directory site_world) (path ?r))
         \<longrightarrow> handle_one_request py311 site_world (?r\<lparr>path := ''/etc/passwd''\<rparr>)
               = handle_one_request py311 site_world ?r"
    by blast+
  then show ?thesis
    using ne ev by (simp add: p)
qed

text \<open>
  C1 as stated fails. The request path \<^verbatim>\<open>/../app.js\<close> appended to the base directory
  normalizes to \<^verbatim>\<open>/srv/app.js\<close>, outside \<^verbatim>\<open>/srv/www\<close>; the answer is neither 403 nor 404 but
  200, with the content of \<^verbatim>\<open>/srv/www/app.js\<close>.
\<close>

theorem dotdot_request_is_served:
  "normpath (directory site_world @ ''/../app.js'') = ''/srv/app.js'' \<and>
   \<not> beneath (directory site_world) (normpath (directory site_world @ ''/../app.js'')) \<and>
   map_option status (handle_one_request py311 site_world (plain_request ''GET'' ''/../app.js'')) = Some 200 \<and>
   map_option body (handle_one_request py311 site_world (plain_request ''GET'' ''/../app.js''))
     = Some ''console.log(1);''"
  by code_simp

subsection \<open>C2: GET of an existing file\<close>

lemma isdir_regular: "fs0 p = Some (RegularFile b m rd) \<Longrightarrow> \<not> isdir fs0 p"
  by (simp add: isdir_def)

lemma send_head_regular:
  "fs W (translate_path L (directory W) (path r)) = Some (RegularFile b m rd)
     \<Longrightarrow> send_head L W r = Some (send_head_file L W r (translate_path L (directory W) (path r)))"
  by (simp add: send_head_def Let_def isdir_regular)

lemma send_head_file_ok:
  assumes "fs W p = Some (RegularFile bytes mtime True)" "\<not> endswith p ''/''" "\<not> not_modified r mtime"
  shows "send_head_file L W r p =
     (\<lparr>status = 200,
       headers = send_response L W
         @ [(''Content-type'', guess_type L p),
            (''Content-Length'', str_nat (length bytes)),
            (''Last-Modified'', date_time_string L mtime)],
       body = [], opened = [p]\<rparr>, Some bytes)"
  using assms by (simp add: send_head_file_def open_rb_def Let_def)

lemma decimal_str_nat: "decimal (str_nat n) = n"
proof (induction n rule: str_nat.induct)
  case (1 n)
  show ?case
  proof (cases "n < 10")
    case True
    then show ?thesis
      by (subst str_nat.simps) (simp add: decimal_def)
  next
    case False
    have "decimal (str_nat (n div 10) @ [char_of (48 + n mod 10)]) = 10 * (n div 10) + n mod 10"
      using 1 [OF False] by (simp add: decimal_def)
    then show ?thesis
      using False by (subst str_nat.simps) simp
  qed
qed

lemma get_regular_file:
  assumes "command r = ''GET''"
    and "fs W (translate_path L (directory W) (path r)) = Some (RegularFile bytes mtime True)"
    and "\<not> endswith (translate_path L (directory W) (path r)) ''/''"
    and "\<not> not_modified r mtime"
  shows "\<exists>resp. handle_one_request L W r = Some resp \<and> status resp = 200
           \<and> map_of (headers resp) ''Content-Length'' = Some (str_nat (length bytes))
           \<and> body resp = bytes"
  using assms
  by (simp add: handle_one_request_def do_GET_def send_head_regular send_head_file_ok
      send_response_def)

text \<open>
  C2, as amended. Let a GET request have a path that \<^verbatim>\<open>translate_path\<close> resolves to an
  existing regular file beneath the base directory which the process may read, and let the
  request not be one that the rule for \<^verbatim>\<open>If-Modified-Since\<close> answers with 304. Then the
  answer has status 200, its \<^verbatim>\<open>Content-Length\<close> header is \<^verbatim>\<open>str\<close> of the file's size in
  bytes, a decimal numeral that reads back as that size, and its body is the content of
  the file, byte for byte.
\<close>

theorem get_existing_file:
  assumes "command r = ''GET''"
    and "fs W (translate_path L (directory W) (path r)) = Some (RegularFile bytes mtime True)"
    and "\<not> endswith (translate_path L (directory W) (path r)) ''/''"
    and "\<not> not_modified r mtime"
  shows "\<exists>resp. handle_one_request L W r = Some resp \<and> status resp = 200
           \<and> map_of (headers resp) ''Content-Length'' = Some (str_nat (length bytes))
           \<and> decimal (str_nat (length bytes)) = length bytes
           \<and> body resp = bytes"
  using get_regular_file [OF assms] by (simp add: decimal_str_nat)

text \<open>At \<^verbatim>\<open>GET /app.js\<close> on the example site: 200, \<^verbatim>\<open>Content-Length: 15\<close>, the file.\<close>

theorem get_existing_file_witness:
  "command (plain_request ''GET'' ''/app.js'') = ''GET'' \<and>
   fs site_world (translate_path py311 (directory site_world) (path (plain_request ''GET'' ''/app.js'')))
     = Some (RegularFile ''console.log(1);'' 1000 True) \<and>
   \<not> endswith (translate_path py311 (directory site_world) (path (plain_request ''GET'' ''/app.js''))) ''/'' \<and>
   \<not> not_modified (plain_request ''GET'' ''/app.js'') 1000 \<and>
   map_option status (handle_one_request py311 site_world (plain_request ''GET'' ''/app.js'')) = Some 200 \<and>
   map_option (\<lambda>resp. map_of (headers resp) ''Content-Length'')
     (handle_one_request py311 site_world (plain_request ''GET'' ''/app.js'')) = Some (Some ''15'') \<and>
   decimal ''15'' = length ''console.log(1);'' \<and>
   map_option body (handle_one_request py311 site_world (plain_request ''GET'' ''/app.js''))
     = Some ''console.log(1);''"
proof -
  have h: "command (plain_request ''GET'' ''/app.js'') = ''GET''"
    "fs site_world (translate_path py311 (directory site_world) (path (plain_request ''GET'' ''/app.js'')))
       = Some (RegularFile ''console.log(1);'' 1000 True)"
    "\<not> endswith (translate_path py311 (directory site_world) (path (plain_request ''GET'' ''/app.js''))) ''/''"
    "\<not> not_modified (plain_request ''GET'' ''/app.js'') 1000"
    by code_simp+
  have ev: "map_option status (handle_one_request py311 site_world (plain_request ''GET'' ''/app.js'')) = Some 200"
    "map_option (\<lambda>resp. map_of (headers resp) ''Content-Length'')
       (handle_one_request py311 site_world (plain_request ''GET'' ''/app.js'')) = Some (Some ''15'')"
    "decimal ''15'' = length ''console.log(1);''"
    "map_option body (handle_one_request py311 site_world (plain_request ''GET'' ''/app.js''))
       = Some ''console.log(1);''"
    by code_simp+
  from get_existing_file [OF h] h ev show ?thesis
    by simp
qed

text \<open>
  C2 as stated fails. \<^verbatim>\<open>/srv/www/app.js\<close> exists and is readable, and a GET request for
  \<^verbatim>\<open>/app.js\<close> that carries \<^verbatim>\<open>If-Modified-Since\<close> with the file's modification time is
  answered with 304 and an empty body.
\<close>

theorem conditional_get_not_modified:
  "fs site_world ''/srv/www/app.js'' = Some (RegularFile ''console.log(1);'' 1000 True) \<and>
   translate_path py311 (directory site_world) ''/app.js'' = ''/srv/www/app.js'' \<and>
   map_option status (handle_one_request py311 site_world
      ((plain_request ''GET'' ''/app.js'')\<lparr>if_modified_since := Some 1000\<rparr>)) = Some 304 \<and>
   map_option body (handle_one_request py311 site_world
      ((plain_request ''GET'' ''/app.js'')\<lparr>if_modified_since := Some 1000\<rparr>)) = Some []"
  by code_simp

subsection \<open>C3: HEAD is GET without the body\<close>

lemma send_head_file_command:
  "status (fst (send_head_file L W (r\<lparr>command := c\<rparr>) p)) = status (fst (send_head_file L W r p))"
  "headers (fst (send_head_file L W (r\<lparr>command := c\<rparr>) p)) = headers (fst (send_head_file L W r p))"
  "snd (send_head_file L W (r\<lparr>command := c\<rparr>) p) = snd (send_head_file L W r p)"
  "body (fst (send_head_file L W (r\<lparr>command := ''HEAD''\<rparr>) p)) = []"
  by (simp_all add: send_head_file_def send_error_def not_modified_def Let_def split: option.split)

text \<open>
  C3. When the path of a request resolves to an existing file beneath the base directory,
  the request with the command HEAD and the same request with the command GET are both
  answered, with the same status and the same headers, and the answer to HEAD has an
  empty body.
\<close>

theorem head_like_get_without_body:
  assumes "fs W (translate_path L (directory W) (path r)) = Some (RegularFile bytes mtime rd)"
  shows "\<exists>g h. handle_one_request L W (r\<lparr>command := ''GET''\<rparr>) = Some g
           \<and> handle_one_request L W (r\<lparr>command := ''HEAD''\<rparr>) = Some h
           \<and> status h = status g \<and> headers h = headers g \<and> body h = []"
proof -
  let ?p = "translate_path L (directory W) (path r)"
  let ?g = "send_head_file L W (r\<lparr>command := ''GET''\<rparr>) ?p"
  let ?h = "send_head_file L W (r\<lparr>command := ''HEAD''\<rparr>) ?p"
  have sg: "send_head L W (r\<lparr>command := ''GET''\<rparr>) = Some ?g"
    using assms send_head_regular [of W L "r\<lparr>command := ''GET''\<rparr>"] by simp
  have sh: "send_head L W (r\<lparr>command := ''HEAD''\<rparr>) = Some ?h"
    using assms send_head_regular [of W L "r\<lparr>command := ''HEAD''\<rparr>"] by simp
  have h: "handle_one_request L W (r\<lparr>command := ''HEAD''\<rparr>) = Some (fst ?h)"
    by (simp add: handle_one_request_def do_HEAD_def sh split: prod.split)
  obtain g where g: "handle_one_request L W (r\<lparr>command := ''GET''\<rparr>) = Some g"
    "status g = status (fst ?g)" "headers g = headers (fst ?g)"
    by (cases ?g; cases "snd ?g") (auto simp add: handle_one_request_def do_GET_def sg)
  show ?thesis
    using g h by (simp add: send_head_file_command)
qed

text \<open>At \<^verbatim>\<open>/index.html\<close> on the example site.\<close>

theorem head_like_get_without_body_witness:
  "fs site_world (translate_path py311 (directory site_world) (path (plain_request [] ''/index.html'')))
     = Some (RegularFile ''<h1>Hi</h1>'' 1000 True) \<and>
   map_option status (handle_one_request py311 site_world (plain_request ''HEAD'' ''/index.html''))
     = map_option status (handle_one_request py311 site_world (plain_request ''GET'' ''/index.html'')) \<and>
   map_option headers (handle_one_request py311 site_world (plain_request ''HEAD'' ''/index.html''))
     = map_option headers (handle_one_request py311 site_world (plain_request ''GET'' ''/index.html'')) \<and>
   map_option body (handle_one_request py311 site_world (plain_request ''HEAD'' ''/index.html'')) = Some [] \<and>
   map_option body (handle_one_request py311 site_world (plain_request ''GET'' ''/index.html''))
     = Some ''<h1>Hi</h1>''"
proof -
  have f: "fs site_world (translate_path py311 (directory site_world) (path (plain_request [] ''/index.html'')))
     = Some (RegularFile ''<h1>Hi</h1>'' 1000 True)"
    by code_simp
  have c: "(plain_request [] ''/index.html'')\<lparr>command := ''GET''\<rparr> = plain_request ''GET'' ''/index.html''"
    "(plain_request [] ''/index.html'')\<lparr>command := ''HEAD''\<rparr> = plain_request ''HEAD'' ''/index.html''"
    by (simp_all add: plain_request_def)
  have b: "map_option body (handle_one_request py311 site_world (plain_request ''GET'' ''/index.html''))
     = Some ''<h1>Hi</h1>''"
    by code_simp
  from head_like_get_without_body [OF f] f b show ?thesis
    unfolding c by auto
qed

subsection \<open>C4: other methods\<close>

text \<open>
  C4, as amended. A request whose method is neither GET nor HEAD is answered with status
  501 (Not Implemented), and no file is opened for it.
\<close>

theorem other_methods_not_implemented:
  assumes "command r \<noteq> ''GET''" and "command r \<noteq> ''HEAD''"
  shows "\<exists>resp. handle_one_request L W r = Some resp \<and> status resp = 501 \<and> opened resp = []"
  using assms by (simp add: handle_one_request_def)

text \<open>At \<^verbatim>\<open>DELETE /app.js\<close> on the example site.\<close>

theorem other_methods_not_implemented_witness:
  "command (plain_request ''DELETE'' ''/app.js'') \<noteq> ''GET'' \<and>
   command (plain_request ''DELETE'' ''/app.js'') \<noteq> ''HEAD'' \<and>
   map_option status (handle_one_request py311 site_world (plain_request ''DELETE'' ''/app.js'')) = Some 501 \<and>
   map_option opened (handle_one_request py311 site_world (plain_request ''DELETE'' ''/app.js'')) = Some []"
proof -
  have c: "command (plain_request ''DELETE'' ''/app.js'') \<noteq> ''GET''"
    "command (plain_request ''DELETE'' ''/app.js'') \<noteq> ''HEAD''"
    by (simp_all add: plain_request_def)
  from other_methods_not_implemented [OF c] c show ?thesis
    by auto
qed

text \<open>
  C4 as stated fails: \<^verbatim>\<open>POST /app.js\<close> is answered with 501, which is not a status of the
  class 4xx, so not 405.
\<close>

theorem post_is_answered_501:
  "map_option (\<lambda>resp. (status resp, 400 \<le> status resp \<and> status resp < 500))
     (handle_one_request py311 site_world (plain_request ''POST'' ''/app.js'')) = Some (501, False)"
  by code_simp

subsection \<open>C5: the MIME type of a path\<close>

lemma extensions_map_script:
  "extensions_map d ''.js'' = Some ''application/javascript''"
  "extensions_map d ''.css'' = Some ''text/css''"
  "extensions_map d ''.html'' = Some ''text/html''"
  "extensions_map d ''.json'' = Some ''application/json''"
  "extensions_map d ''.png'' = Some ''image/png''"
  "extensions_map d ''.xml'' = Some ''application/xml''"
  by (simp_all add: extensions_map_def)

lemma guess_type_table:
  "extensions_map (extensions_map_default L) (snd (splitext p)) = Some t \<Longrightarrow> guess_type L p = t"
  by (simp add: guess_type_def Let_def)

lemma guess_type_table_lower:
  "extensions_map (extensions_map_default L) (snd (splitext p)) = None \<Longrightarrow>
   extensions_map (extensions_map_default L) (lower (snd (splitext p))) = Some t \<Longrightarrow> guess_type L p = t"
  by (simp add: guess_type_def Let_def)

lemma mimetypes_guess_type_unknown:
  assumes "suffix_map (lower (snd (splitext p))) = None"
    and "encodings_map (snd (splitext p)) = None"
    and "tm (lower (snd (splitext p))) = None"
  shows "mimetypes_guess_type tm p = None"
proof -
  obtain b e where s: "splitext p = (b, e)" by (cases "splitext p")
  then have "suffix_loop (splitext p) = (b, e)"
    using assms(1) by (simp add: suffix_loop.simps)
  then show ?thesis
    using assms s by (simp add: mimetypes_guess_type_def)
qed

text \<open>
  C5, as amended. A path whose extension is \<^verbatim>\<open>.js\<close>, \<^verbatim>\<open>.css\<close>, \<^verbatim>\<open>.html\<close>, \<^verbatim>\<open>.json\<close>,
  \<^verbatim>\<open>.png\<close> or \<^verbatim>\<open>.xml\<close> gets the type the script registers for it, whatever the tables of
  the library hold. An absolute path whose extension is in none of the tables (the
  handler's table, as it is and in lower case, and the suffix, encoding and type tables
  of \<^verbatim>\<open>mimetypes\<close>) gets \<^verbatim>\<open>application/octet-stream\<close>. Two paths with the same extension get the same type
  when the extension, as it is or in lower case, is in the handler's table; otherwise the
  type is what \<^verbatim>\<open>mimetypes.guess_type\<close> finds for the whole path.
\<close>

theorem mime_resolution:
  "(snd (splitext p) = ''.js'' \<longrightarrow> guess_type L p = ''application/javascript'') \<and>
   (snd (splitext p) = ''.css'' \<longrightarrow> guess_type L p = ''text/css'') \<and>
   (snd (splitext p) = ''.html'' \<longrightarrow> guess_type L p = ''text/html'') \<and>
   (snd (splitext p) = ''.json'' \<longrightarrow> guess_type L p = ''application/json'') \<and>
   (snd (splitext p) = ''.png'' \<longrightarrow> guess_type L p = ''image/png'') \<and>
   (snd (splitext p) = ''.xml'' \<longrightarrow> guess_type L p = ''application/xml'') \<and>
   (startswith p ''/'' \<and>
    extensions_map (extensions_map_default L) (snd (splitext p)) = None \<and>
    extensions_map (extensions_map_default L) (lower (snd (splitext p))) = None \<and>
    suffix_map (lower (snd (splitext p))) = None \<and>
    encodings_map (snd (splitext p)) = None \<and>
    types_map L (lower (snd (splitext p))) = None
      \<longrightarrow> guess_type L p = ''application/octet-stream'') \<and>
   (snd (splitext p) = snd (splitext q) \<and>
    (extensions_map (extensions_map_default L) (snd (splitext p)) \<noteq> None \<or>
     extensions_map (extensions_map_default L) (lower (snd (splitext p))) \<noteq> None)
      \<longrightarrow> guess_type L p = guess_type L q)"
proof -
  have scr: "guess_type L p = t"
    if "extensions_map (extensions_map_default L) (snd (splitext p)) = Some t" for t
    using that by (rule guess_type_table)
  have unknown: "guess_type L p = ''application/octet-stream''"
    if "extensions_map (extensions_map_default L) (snd (splitext p)) = None"
      "extensions_map (extensions_map_default L) (lower (snd (splitext p))) = None"
      "suffix_map (lower (snd (splitext p))) = None"
      "encodings_map (snd (splitext p)) = None"
      "types_map L (lower (snd (splitext p))) = None"
    using that mimetypes_guess_type_unknown [of p "types_map L"]
    by (simp add: guess_type_def Let_def)
  have pure: "guess_type L p = guess_type L q"
    if "snd (splitext p) = snd (splitext q)"
      "extensions_map (extensions_map_default L) (snd (splitext p)) \<noteq> None \<or>
       extensions_map (extensions_map_default L) (lower (snd (splitext p))) \<noteq> None"
    using that by (auto simp add: guess_type_def Let_def split: option.splits)
  have script: "snd (splitext p) = e \<longrightarrow> guess_type L p = t"
    if "extensions_map (extensions_map_default L) e = Some t" for e t
    using that scr by blast
  show ?thesis
    by (intro conjI impI script extensions_map_script) (use unknown pure in blast)+
qed

text \<open>At \<^verbatim>\<open>app.js\<close>, \<^verbatim>\<open>logo.png\<close>, \<^verbatim>\<open>data.bin\<close> and two paths that end in \<^verbatim>\<open>.JS\<close>.\<close>

theorem mime_resolution_witness:
  "snd (splitext ''/srv/www/app.js'') = ''.js'' \<and>
   guess_type py311 ''/srv/www/app.js'' = ''application/javascript'' \<and>
   snd (splitext ''/srv/www/logo.png'') = ''.png'' \<and>
   guess_type py311 ''/srv/www/logo.png'' = ''image/png'' \<and>
   startswith ''/srv/www/data.bin'' ''/'' \<and>
   snd (splitext ''/srv/www/data.bin'') = ''.bin'' \<and>
   guess_type py311 ''/srv/www/data.bin'' = ''application/octet-stream'' \<and>
   snd (splitext ''/srv/www/APP.JS'') = snd (splitext ''/srv/www/lib/X.JS'') \<and>
   guess_type py311 ''/srv/www/APP.JS'' = guess_type py311 ''/srv/www/lib/X.JS''"
proof -
  have e: "snd (splitext ''/srv/www/app.js'') = ''.js''"
    "snd (splitext ''/srv/www/logo.png'') = ''.png''"
    "snd (splitext ''/srv/www/data.bin'') = ''.bin''"
    "startswith ''/srv/www/data.bin'' ''/''"
    "snd (splitext ''/srv/www/APP.JS'') = ''.JS''"
    "snd (splitext ''/srv/www/lib/X.JS'') = ''.JS''"
    by code_simp+
  have t: "extensions_map (extensions_map_default py311) ''.bin'' = None"
    "extensions_map (extensions_map_default py311) (lower ''.bin'') = None"
    "suffix_map (lower ''.bin'') = None"
    "encodings_map ''.bin'' = None"
    "types_map py311 (lower ''.bin'') = None"
    "extensions_map (extensions_map_default py311) (lower ''.JS'') \<noteq> None"
    by code_simp+
  from mime_resolution [of "''/srv/www/app.js''" py311 "''/srv/www/app.js''"]
    mime_resolution [of "''/srv/www/logo.png''" py311 "''/srv/www/app.js''"]
    mime_resolution [of "''/srv/www/data.bin''" py311 "''/srv/www/app.js''"]
    mime_resolution [of "''/srv/www/APP.JS''" py311 "''/srv/www/lib/X.JS''"]
  show ?thesis
    using e t by simp
qed

text \<open>
  C5 as stated fails: the type is not a function of the extension. \<^verbatim>\<open>a.tar.br\<close> and
  \<^verbatim>\<open>a.br\<close> both have the extension \<^verbatim>\<open>.br\<close>, which is not in the handler's table; for the
  first \<^verbatim>\<open>mimetypes.guess_type\<close> takes off the encoding suffix and finds \<^verbatim>\<open>.tar\<close>, for the
  second it finds nothing.
\<close>

theorem same_extension_different_type:
  "snd (splitext ''/srv/www/a.tar.br'') = ''.br'' \<and>
   snd (splitext ''/srv/www/a.br'') = ''.br'' \<and>
   guess_type py311 ''/srv/www/a.tar.br'' = ''application/x-tar'' \<and>
   guess_type py311 ''/srv/www/a.br'' = ''application/octet-stream''"
  by code_simp

subsection \<open>C7: a bad certificate or key stops the start\<close>

lemma uncaught_startup: "e \<noteq> KeyboardInterrupt \<Longrightarrow> uncaught e = Exited 1"
  by (simp add: uncaught_def)

lemma load_cert_chain_Inl:
  "load_cert_chain L d c k = Inl e \<Longrightarrow> e = OSError \<or> e = SSLError"
  by (auto simp add: load_cert_chain_def split: option.splits prod.splits if_splits)

lemma load_cert_chain_bad:
  assumes "open_rb d c = None \<or> open_rb d k = None
     \<or> (\<exists>cert t key u. open_rb d c = Some (cert, t) \<and> open_rb d k = Some (key, u)
           \<and> \<not> key_matches L cert key)"
  shows "\<exists>e. load_cert_chain L d c k = Inl e"
  using assms by (auto simp add: load_cert_chain_def split: option.splits prod.splits)

lemma raised_sel [simp]:
  "actions (raised e acts) = acts" "responses (raised e acts) = []"
  "traceback (raised e acts) = Some e" "exit_status (raised e acts) = Some (uncaught e)"
  by (simp_all add: raised_def)

lemma run_not_started:
  assumes "load_cert_chain L (disk s) (CERT_FILE (start_cwd s) (script_file s))
             (KEY_FILE (start_cwd s) (script_file s)) = Inl e"
  shows "\<exists>e' acts. run L s evs = raised e' acts \<and> e' \<noteq> KeyboardInterrupt \<and> ServeForever \<notin> set acts"
proof -
  let ?base = "BASE_DIR (start_cwd s) (script_file s)"
  have e: "e \<noteq> KeyboardInterrupt"
    using load_cert_chain_Inl [OF assms] by auto
  consider (chdir) "\<not> isdir (disk s) ?base"
    | (bind) "isdir (disk s) ?base" "\<not> address_free s ''localhost'' PORT"
    | (cert) "isdir (disk s) ?base" "address_free s ''localhost'' PORT"
    by blast
  then show ?thesis
  proof cases
    case chdir
    then have "run L s evs = raised OSError []"
      by (simp add: run_def Let_def)
    then show ?thesis by (intro exI [of _ OSError] exI [of _ "[]"]) simp
  next
    case bind
    then have "run L s evs = raised OSError [Chdir ?base]"
      by (simp add: run_def Let_def)
    then show ?thesis by (intro exI [of _ OSError] exI [of _ "[Chdir ?base]"]) simp
  next
    case cert
    then have "run L s evs = raised e [Chdir ?base, Listen ''localhost'' PORT]"
      using assms by (simp add: run_def Let_def)
    then show ?thesis
      using e by (intro exI [of _ e] exI [of _ "[Chdir ?base, Listen ''localhost'' PORT]"]) simp
  qed
qed

text \<open>
  C7. If the certificate file or the key file cannot be read (it is missing or
  unreadable), or the key does not match the certificate, the process ends with exit
  status 1 and a traceback, it has answered no request, and \<^verbatim>\<open>serve_forever\<close> was never
  called.
\<close>

theorem bad_certificate_stops_startup:
  assumes "open_rb (disk s) (CERT_FILE (start_cwd s) (script_file s)) = None
     \<or> open_rb (disk s) (KEY_FILE (start_cwd s) (script_file s)) = None
     \<or> (\<exists>cert t key u.
           open_rb (disk s) (CERT_FILE (start_cwd s) (script_file s)) = Some (cert, t)
         \<and> open_rb (disk s) (KEY_FILE (start_cwd s) (script_file s)) = Some (key, u)
         \<and> \<not> key_matches L cert key)"
  shows "exit_status (run L s evs) = Some (Exited 1)
     \<and> traceback (run L s evs) \<noteq> None
     \<and> responses (run L s evs) = []
     \<and> ServeForever \<notin> set (actions (run L s evs))"
proof -
  obtain e where "load_cert_chain L (disk s) (CERT_FILE (start_cwd s) (script_file s))
             (KEY_FILE (start_cwd s) (script_file s)) = Inl e"
    using load_cert_chain_bad [OF assms] by blast
  then obtain e' acts where "run L s evs = raised e' acts" "e' \<noteq> KeyboardInterrupt"
    "ServeForever \<notin> set acts"
    using run_not_started by blast
  then show ?thesis
    by (simp add: uncaught_startup)
qed

text \<open>At the example site without its key file, with a request waiting.\<close>

theorem bad_certificate_stops_startup_witness:
  "open_rb (disk site_without_key)
     (KEY_FILE (start_cwd site_without_key) (script_file site_without_key)) = None \<and>
   exit_status (run py311 site_without_key [Request (plain_request ''GET'' ''/'')]) = Some (Exited 1) \<and>
   traceback (run py311 site_without_key [Request (plain_request ''GET'' ''/'')]) = Some OSError \<and>
   responses (run py311 site_without_key [Request (plain_request ''GET'' ''/'')]) = [] \<and>
   actions (run py311 site_without_key [Request (plain_request ''GET'' ''/'')])
     = [Chdir ''/srv/www'', Listen ''localhost'' 3000]"
proof -
  have k: "open_rb (disk site_without_key)
     (KEY_FILE (start_cwd site_without_key) (script_file site_without_key)) = None"
    by code_simp
  have v: "traceback (run py311 site_without_key [Request (plain_request ''GET'' ''/'')]) = Some OSError"
    "actions (run py311 site_without_key [Request (plain_request ''GET'' ''/'')])
       = [Chdir ''/srv/www'', Listen ''localhost'' 3000]"
    by code_simp+
  from bad_certificate_stops_startup [of site_without_key py311 "[Request (plain_request ''GET'' ''/'')]"] k v
  show ?thesis by simp
qed

subsection \<open>C8: the interrupt signal\<close>

lemma exit_status_raised: "exit_status (raised e acts) \<noteq> None"
  by simp

lemma run_started:
  assumes "exit_status (run L s []) = None"
  shows "isdir (disk s) (BASE_DIR (start_cwd s) (script_file s))
     \<and> address_free s ''localhost'' PORT
     \<and> (\<exists>cert key. load_cert_chain L (disk s) (CERT_FILE (start_cwd s) (script_file s))
             (KEY_FILE (start_cwd s) (script_file s)) = Inr (cert, key))"
proof -
  let ?base = "BASE_DIR (start_cwd s) (script_file s)"
  let ?load = "load_cert_chain L (disk s) (CERT_FILE (start_cwd s) (script_file s))
             (KEY_FILE (start_cwd s) (script_file s))"
  have 1: "isdir (disk s) ?base"
    using assms exit_status_raised [of OSError "[]"]
    by (cases "isdir (disk s) ?base") (simp_all add: run_def Let_def)
  have 2: "address_free s ''localhost'' PORT"
    using assms 1 exit_status_raised [of OSError "[Chdir ?base]"]
    by (cases "address_free s ''localhost'' PORT") (simp_all add: run_def Let_def)
  have 3: "\<exists>cert key. ?load = Inr (cert, key)"
  proof (cases ?load)
    case (Inl e)
    then show ?thesis
      using assms 1 2 exit_status_raised [of e "[Chdir ?base, Listen ''localhost'' PORT]"]
      by (simp add: run_def Let_def)
  next
    case (Inr ctx)
    then show ?thesis by (cases ctx) simp
  qed
  show ?thesis using 1 2 3 by blast
qed

lemma run_serving:
  assumes "exit_status (run L s []) = None"
  shows "run L s evs =
     (let W = \<lparr>fs = disk s, directory = BASE_DIR (start_cwd s) (script_file s), now = clock s\<rparr>
      in \<lparr>actions =
            [Chdir (BASE_DIR (start_cwd s) (script_file s)), Listen ''localhost'' PORT,
             LoadCertChain (CERT_FILE (start_cwd s) (script_file s))
               (KEY_FILE (start_cwd s) (script_file s)),
             WrapSocket,
             Print (''Serving on https://localhost:'' @ str_nat PORT),
             Print ''Press Ctrl+C to stop'',
             ServeForever],
          responses = fst (serve_forever L W evs),
          traceback = snd (serve_forever L W evs),
          exit_status = map_option uncaught (snd (serve_forever L W evs))\<rparr>)"
proof -
  obtain cert key where "load_cert_chain L (disk s) (CERT_FILE (start_cwd s) (script_file s))
             (KEY_FILE (start_cwd s) (script_file s)) = Inr (cert, key)"
    using run_started [OF assms] by blast
  then show ?thesis
    using run_started [OF assms] by (simp add: run_def Let_def split: prod.split)
qed

lemma serve_forever_interrupt:
  assumes "Interrupt \<notin> set evs"
  shows "snd (serve_forever L W (evs @ Interrupt # later)) = Some KeyboardInterrupt
     \<and> length (fst (serve_forever L W (evs @ Interrupt # later))) = length evs"
  using assms
proof (induction evs)
  case Nil
  then show ?case by simp
next
  case (Cons e evs)
  then obtain r where "e = Request r" by (cases e) auto
  then show ?case using Cons by (simp add: Let_def case_prod_beta)
qed

text \<open>
  C8, as amended. When the interrupt signal arrives while the process serves, the
  \<^verbatim>\<open>KeyboardInterrupt\<close> leaves \<^verbatim>\<open>serve_forever\<close> and the script uncaught: the process prints
  the traceback and is killed by \<^verbatim>\<open>SIGINT\<close>, so its exit status is not 0. The requests that
  came before the signal have been answered, none after it is, and the script never
  closes the listening socket itself.
\<close>

theorem interrupt_kills_process:
  assumes "exit_status (run L s []) = None" and "Interrupt \<notin> set evs"
  shows "exit_status (run L s (evs @ Interrupt # later)) = Some (Killed 2)
     \<and> traceback (run L s (evs @ Interrupt # later)) = Some KeyboardInterrupt
     \<and> ServerClose \<notin> set (actions (run L s (evs @ Interrupt # later)))
     \<and> length (responses (run L s (evs @ Interrupt # later))) = length evs"
  using serve_forever_interrupt [OF assms(2)]
  by (simp add: run_serving [OF assms(1)] Let_def uncaught_def)

text \<open>At the example site: one request, the signal, one more request.\<close>

theorem interrupt_kills_process_witness:
  "exit_status (run py311 site_start []) = None \<and>
   Interrupt \<notin> set [Request (plain_request ''GET'' ''/app.js'')] \<and>
   exit_status (run py311 site_start
      ([Request (plain_request ''GET'' ''/app.js'')] @ Interrupt # [Request (plain_request ''GET'' ''/'')]))
     = Some (Killed 2) \<and>
   map (map_option status) (responses (run py311 site_start
      ([Request (plain_request ''GET'' ''/app.js'')] @ Interrupt # [Request (plain_request ''GET'' ''/'')])))
     = [Some 200]"
proof -
  have a: "exit_status (run py311 site_start []) = None"
    by code_simp
  have b: "Interrupt \<notin> set [Request (plain_request ''GET'' ''/app.js'')]"
    by simp
  have c: "map (map_option status) (responses (run py311 site_start
      ([Request (plain_request ''GET'' ''/app.js'')] @ Interrupt # [Request (plain_request ''GET'' ''/'')])))
     = [Some 200]"
    by code_simp
  from interrupt_kills_process [OF a b, of "[Request (plain_request ''GET'' ''/'')]"] a b c
  show ?thesis by simp
qed

text \<open>
  C8 as stated fails: the example site serves, the signal arrives, and the process ends
  killed by signal 2, not with exit code 0; no \<^verbatim>\<open>server_close\<close> is among its actions.
\<close>

theorem interrupt_exit_status_not_zero:
  "exit_status (run py311 site_start []) = None \<and>
   exit_status (run py311 site_start [Interrupt]) = Some (Killed 2) \<and>
   exit_status (run py311 site_start [Interrupt]) \<noteq> Some (Exited 0) \<and>
   ServerClose \<notin> set (actions (run py311 site_start [Interrupt]))"
  by code_simp

subsection \<open>C9: the listening address\<close>

lemma actions_run:
  "set (actions (run L s evs)) \<subseteq>
     {Chdir (BASE_DIR (start_cwd s) (script_file s)), Listen ''localhost'' PORT,
      LoadCertChain (CERT_FILE (start_cwd s) (script_file s))
        (KEY_FILE (start_cwd s) (script_file s)),
      WrapSocket,
      Print (''Serving on https://localhost:'' @ str_nat PORT),
      Print ''Press Ctrl+C to stop'',
      ServeForever}"
  by (simp add: run_def Let_def case_prod_beta split: sum.split)

lemma listen_actions:
  assumes "Listen h p \<in> set (actions (run L s evs))"
  shows "h = ''localhost'' \<and> p = 3000"
  using assms actions_run [of L s evs] by (auto simp add: PORT_def)

lemma run_ignores_argv_environ: "run L (s\<lparr>argv := a, environ := e\<rparr>) evs = run L s evs"
  by (simp add: run_def Let_def cong: if_cong sum.case_cong)

text \<open>
  C9, as amended. The only address the process ever listens on is host \<^verbatim>\<open>localhost\<close>,
  port 3000, and it does listen there once it serves. Host and port are constants of the
  script: the command line and the environment have no influence on what the process
  does, so there is nothing to override them with.
\<close>

theorem listens_on_localhost_3000:
  "(\<forall>h p. Listen h p \<in> set (actions (run L s evs)) \<longrightarrow> h = ''localhost'' \<and> p = 3000)
   \<and> (exit_status (run L s []) = None \<longrightarrow> Listen ''localhost'' 3000 \<in> set (actions (run L s evs)))
   \<and> run L (s\<lparr>argv := a, environ := e\<rparr>) evs = run L s evs"
proof -
  have "Listen ''localhost'' 3000 \<in> set (actions (run L s evs))" if "exit_status (run L s []) = None"
    by (simp add: run_serving [OF that] Let_def PORT_def)
  then show ?thesis
    using listen_actions run_ignores_argv_environ by blast
qed

text \<open>At the example site, with and without its arguments and environment.\<close>

theorem listens_on_localhost_3000_witness:
  "exit_status (run py311 site_start []) = None \<and>
   Listen ''localhost'' 3000 \<in> set (actions (run py311 site_start [])) \<and>
   run py311 (site_start\<lparr>argv := [''serve.py''], environ := []\<rparr>) [] = run py311 site_start []"
proof -
  have a: "exit_status (run py311 site_start []) = None"
    by code_simp
  from listens_on_localhost_3000 [where L = py311 and s = site_start and evs = "[]"
      and a = "[''serve.py'']" and e = "[]"] a
  show ?thesis by simp
qed

text \<open>
  C9 as stated fails: started with \<^verbatim>\<open>--host 0.0.0.0 --port 8080\<close> and with \<^verbatim>\<open>HOST\<close> and
  \<^verbatim>\<open>PORT\<close> set in the environment, the process listens on \<^verbatim>\<open>localhost\<close>, port 3000, and
  not on port 8080.
\<close>

theorem port_option_is_ignored:
  "argv site_start = [''serve.py'', ''--host'', ''0.0.0.0'', ''--port'', ''8080''] \<and>
   environ site_start = [(''HOST'', ''0.0.0.0''), (''PORT'', ''8080'')] \<and>
   Listen ''localhost'' 3000 \<in> set (actions (run py311 site_start [])) \<and>
   Listen ''0.0.0.0'' 8080 \<notin> set (actions (run py311 site_start []))"
  by code_simp

subsection \<open>C10: the private key is one of the files served\<close>

lemma translate_path_key:
  "translate_path L d ''/certs/server.key'' = join (join d ''certs'') ''server.key''"
proof -
  have 1: "split_first CHR ''#'' (split_first CHR ''?'' ''/certs/server.key'') = ''/certs/server.key''"
    by code_simp
  have 2: "endswith (rstrip ''/certs/server.key'') ''/'' = False"
    by code_simp
  have 3: "unquote L ''/certs/server.key'' = ''/certs/server.key''"
    by (simp add: unquote_def)
  have 4: "filter (\<lambda>w. w \<noteq> []) (str_split CHR ''/'' (normpath ''/certs/server.key''))
             = [''certs'', ''server.key'']"
    by code_simp
  have 5: "dirname ''certs'' = []" "dirname ''server.key'' = []"
    by code_simp+
  show ?thesis
    by (simp add: translate_path_def Let_def 1 2 3 4 translate_step_def 5)
qed

lemma join_key_no_slash: "\<not> endswith (join a ''server.key'') ''/''"
  by (simp add: join_def endswith_slash startswith_def)

lemma normpath_absolute:
  assumes "startswith p ''/''"
  shows "startswith (normpath p) ''/''"
proof -
  have "p \<noteq> []" using assms by (auto simp add: startswith_def)
  then show ?thesis
    using assms by (simp add: normpath_def Let_def startswith_slash)
qed

lemma join_absolute: "startswith a ''/'' \<Longrightarrow> startswith (join a b) ''/''"
  by (cases a) (auto simp add: join_def startswith_slash)

lemma takeWhile_short: "x \<in> set xs \<Longrightarrow> \<not> P x \<Longrightarrow> length (takeWhile P xs) < length xs"
  by (induction xs) auto

lemma rfind_found: "c \<in> set s \<Longrightarrow> 0 \<le> rfind c s"
  using takeWhile_short [of c "rev s" "\<lambda>x. x \<noteq> c"] by (simp add: rfind_def)

lemma dirname_absolute:
  assumes "startswith p ''/''"
  shows "dirname p \<noteq> []"
proof -
  obtain q where p: "p = CHR ''/'' # q"
    using assms by (cases p) (auto simp add: startswith_def)
  obtain k where k: "k \<le> length p" "rfind CHR ''/'' p + 1 = int k"
    using rfind_succ [of p "CHR ''/''"] by blast
  have "0 \<le> rfind CHR ''/'' p"
    by (rule rfind_found) (simp add: p)
  then obtain j where j: "k = Suc j" using k by (cases k) auto
  have "nat (rfind CHR ''/'' p + 1) = Suc j"
    using k j by simp
  then have head: "slice p 0 (rfind CHR ''/'' p + 1) = CHR ''/'' # take j q"
    by (simp add: slice_def p)
  have "rstrip_sep (CHR ''/'' # xs) \<noteq> []" if "CHR ''/'' # xs \<noteq> replicate (Suc (length xs)) CHR ''/''" for xs
  proof
    assume "rstrip_sep (CHR ''/'' # xs) = []"
    then have "dropWhile (\<lambda>c. c = CHR ''/'') (rev (CHR ''/'' # xs)) = []"
      by (simp add: rstrip_sep_def)
    then have "\<forall>c \<in> set (CHR ''/'' # xs). c = CHR ''/''"
      by (simp add: dropWhile_eq_Nil_conv)
    then have "CHR ''/'' # xs = replicate (length (CHR ''/'' # xs)) CHR ''/''"
      by (intro replicate_length_same [symmetric]) 
    with that show False by simp
  qed
  then show ?thesis
    unfolding dirname_def Let_def head by auto
qed

lemma BASE_DIR_nonempty:
  assumes "startswith cwd0 ''/''"
  shows "BASE_DIR cwd0 file \<noteq> []"
  unfolding BASE_DIR_def abspath_def
  by (rule dirname_absolute, rule normpath_absolute) (simp add: join_absolute assms)

lemma beneath_KEY_FILE:
  assumes "BASE_DIR cwd0 file \<noteq> []"
  shows "beneath (BASE_DIR cwd0 file) (KEY_FILE cwd0 file)"
  unfolding KEY_FILE_def
  by (intro beneath_join beneath_self assms) simp_all

lemma open_rb_Some: "open_rb d p = Some (b, m) \<Longrightarrow> d p = Some (RegularFile b m True)"
  by (auto simp add: open_rb_def split: option.splits node.splits bool.splits)

lemma load_cert_chain_Inr:
  "load_cert_chain L d c k = Inr (cert, key) \<Longrightarrow> \<exists>m. d k = Some (RegularFile key m True)"
  by (auto simp add: load_cert_chain_def split: option.splits prod.splits if_splits dest: open_rb_Some)

text \<open>
  C10, as amended. Let the process serve, started in an absolute working directory. It has
  changed into \<^verbatim>\<open>BASE_DIR\<close>, the directory of the script, which is the directory of its
  handlers; \<^verbatim>\<open>KEY_FILE\<close> lies beneath it, and it is the path that the request path
  \<^verbatim>\<open>/certs/server.key\<close> resolves to. The file exists and is readable (the process has loaded
  the key from it), and a GET request for \<^verbatim>\<open>/certs/server.key\<close> that has no
  \<^verbatim>\<open>If-Modified-Since\<close> date, or has an \<^verbatim>\<open>If-None-Match\<close> header, is answered with status
  200 and with the bytes of the private key as the body.
\<close>

theorem private_key_is_served:
  assumes started: "exit_status (run L s []) = None"
    and cwd: "startswith (start_cwd s) ''/''"
    and r: "command r = ''GET''" "path r = ''/certs/server.key''"
      "if_modified_since r = None \<or> if_none_match r"
  shows "\<exists>cert key mtime resp.
       Chdir (BASE_DIR (start_cwd s) (script_file s)) \<in> set (actions (run L s (Request r # evs)))
     \<and> beneath (BASE_DIR (start_cwd s) (script_file s)) (KEY_FILE (start_cwd s) (script_file s))
     \<and> translate_path L (BASE_DIR (start_cwd s) (script_file s)) (path r)
          = KEY_FILE (start_cwd s) (script_file s)
     \<and> load_cert_chain L (disk s) (CERT_FILE (start_cwd s) (script_file s))
          (KEY_FILE (start_cwd s) (script_file s)) = Inr (cert, key)
     \<and> disk s (KEY_FILE (start_cwd s) (script_file s)) = Some (RegularFile key mtime True)
     \<and> hd (responses (run L s (Request r # evs))) = Some resp
     \<and> status resp = 200 \<and> body resp = key"
proof -
  let ?base = "BASE_DIR (start_cwd s) (script_file s)"
  let ?key = "KEY_FILE (start_cwd s) (script_file s)"
  let ?W = "\<lparr>fs = disk s, directory = ?base, now = clock s\<rparr>"
  obtain cert key where load: "load_cert_chain L (disk s) (CERT_FILE (start_cwd s) (script_file s))
       ?key = Inr (cert, key)"
    using run_started [OF started] by blast
  then obtain mtime where f: "disk s ?key = Some (RegularFile key mtime True)"
    using load_cert_chain_Inr by blast
  have t: "translate_path L ?base (path r) = ?key"
    by (simp add: r translate_path_key KEY_FILE_def)
  have b: "beneath ?base ?key"
    using BASE_DIR_nonempty [OF cwd] by (rule beneath_KEY_FILE)
  have n: "\<not> endswith ?key ''/''"
    by (simp add: KEY_FILE_def join_key_no_slash)
  have "\<not> not_modified r mtime"
    using r(3) by (auto simp add: not_modified_def split: option.splits)
  then obtain resp where resp: "handle_one_request L ?W r = Some resp" "status resp = 200"
      "body resp = key"
    using get_regular_file [of r ?W L key mtime] r(1) f t n by auto
  have "hd (responses (run L s (Request r # evs))) = Some resp"
    by (simp add: run_serving [OF started] Let_def case_prod_beta resp)
  moreover have "Chdir ?base \<in> set (actions (run L s (Request r # evs)))"
    by (simp add: run_serving [OF started] Let_def)
  ultimately show ?thesis
    using load f t b resp by blast
qed

text \<open>At the example site: the answer to \<^verbatim>\<open>GET /certs/server.key\<close> is the key.\<close>

theorem private_key_is_served_witness:
  "exit_status (run py311 site_start []) = None \<and>
   startswith (start_cwd site_start) ''/'' \<and>
   command (plain_request ''GET'' ''/certs/server.key'') = ''GET'' \<and>
   path (plain_request ''GET'' ''/certs/server.key'') = ''/certs/server.key'' \<and>
   if_modified_since (plain_request ''GET'' ''/certs/server.key'') = None \<and>
   KEY_FILE (start_cwd site_start) (script_file site_start) = ''/srv/www/certs/server.key'' \<and>
   map_option (\<lambda>resp. (status resp, body resp))
     (hd (responses (run py311 site_start [Request (plain_request ''GET'' ''/certs/server.key'')])))
     = Some (200, ''PRIVATE KEY'')"
proof -
  have a: "exit_status (run py311 site_start []) = None"
    "startswith (start_cwd site_start) ''/''"
    by code_simp+
  have r: "command (plain_request ''GET'' ''/certs/server.key'') = ''GET''"
    "path (plain_request ''GET'' ''/certs/server.key'') = ''/certs/server.key''"
    "if_modified_since (plain_request ''GET'' ''/certs/server.key'') = None
       \<or> if_none_match (plain_request ''GET'' ''/certs/server.key'')"
    by (simp_all add: plain_request_def)
  have v: "KEY_FILE (start_cwd site_start) (script_file site_start) = ''/srv/www/certs/server.key''"
    "map_option (\<lambda>resp. (status resp, body resp))
       (hd (responses (run py311 site_start [Request (plain_request ''GET'' ''/certs/server.key'')])))
       = Some (200, ''PRIVATE KEY'')"
    by code_simp+
  have n: "if_modified_since (plain_request ''GET'' ''/certs/server.key'') = None"
    by (simp add: plain_request_def)
  from private_key_is_served [OF a r, of "[]"] a r n v show ?thesis
    by simp
qed

text \<open>
  C10 as stated fails for a conditional request: the key file exists, and a GET request
  for \<^verbatim>\<open>/certs/server.key\<close> whose \<^verbatim>\<open>If-Modified-Since\<close> date is the file's modification time
  is answered with 304 and no body.
\<close>

theorem conditional_get_for_private_key:
  "exit_status (run py311 site_start []) = None \<and>
   disk site_start ''/srv/www/certs/server.key'' = Some (RegularFile ''PRIVATE KEY'' 1000 True) \<and>
   map_option (\<lambda>resp. (status resp, body resp))
     (hd (responses (run py311 site_start
        [Request ((plain_request ''GET'' ''/certs/server.key'')\<lparr>if_modified_since := Some 1000\<rparr>)])))
     = Some (304, [])"
  by code_simp

end
